theory Spec2Isabelle
  imports Main
begin

section \<open>Values\<close>

text \<open>
  The values that \<open>convertTypes\<close> meets: what \<open>JSON.parse\<close> produces (null, booleans,
  numbers, strings, arrays, objects) and the two typed values that the function itself
  builds, \<open>Date\<close> and \<open>ObjectId\<close>. Numbers are only ever copied, so their carrier is a
  type parameter. An object is the list of its own enumerable properties in \<open>for ... in\<close>
  order; a parsed JSON object has each key once and \<open>Object.prototype\<close> as prototype.
  A \<open>Date\<close> holds its time value in milliseconds since the epoch (\<open>None\<close> is the
  invalid date, \<open>NaN\<close>); an \<open>ObjectId\<close> holds its twelve bytes.
\<close>

datatype 'n jsval =
    JNull
  | JBool bool
  | JNum 'n
  | JStr string
  | JArr "'n jsval list"
  | JObj "(string \<times> 'n jsval) list"
  | JDate "int option"
  | JOid "nat list"

text \<open>What a \<open>throw\<close> carries up to the enclosing \<open>catch\<close>.\<close>

datatype error =
    TypeError
  | BSONError
  | MongoError string
  | ModuleError string

text \<open>
  The two points where the behaviour is fixed by the runtime and by the driver in use
  rather than by the program: the date formats that \<open>Date.parse\<close> accepts beyond the
  ISO format of the language standard, and the own enumerable properties that an
  \<open>ObjectId\<close> shows to a \<open>for ... in\<close> loop (given here as the plain object that
  lines 64 to 126 build from them).
\<close>

record 'n engine =
  legacyDate :: "string \<Rightarrow> int option"
  oidCopy :: "nat list \<Rightarrow> (string \<times> 'n jsval) list"

section \<open>Date.parse\<close>

definition digit_val :: "char \<Rightarrow> nat option" where
  "digit_val c =
     (let n = of_char c :: nat in if 48 \<le> n \<and> n \<le> 57 then Some (n - 48) else None)"

fun number_val :: "nat \<Rightarrow> string \<Rightarrow> nat option" where
  "number_val acc [] = Some acc"
| "number_val acc (c # cs) =
     (case digit_val c of None \<Rightarrow> None | Some d \<Rightarrow> number_val (10 * acc + d) cs)"

definition leap_year :: "nat \<Rightarrow> bool" where
  "leap_year y = (y mod 4 = 0 \<and> (y mod 100 \<noteq> 0 \<or> y mod 400 = 0))"

definition days_in_month :: "nat \<Rightarrow> nat \<Rightarrow> nat" where
  "days_in_month y m =
     (if m = 2 then (if leap_year y then 29 else 28)
      else if m = 4 \<or> m = 6 \<or> m = 9 \<or> m = 11 then 30 else 31)"

text \<open>Days from 1970-01-01 to the given day of the proleptic Gregorian calendar.\<close>

definition days_from_civil :: "nat \<Rightarrow> nat \<Rightarrow> nat \<Rightarrow> int" where
  "days_from_civil y m d =
     (let y' = int y - (if m \<le> 2 then 1 else 0);
          era = y' div 400;
          yoe = y' - era * 400;
          mp = (if m > 2 then int m - 3 else int m + 9);
          doy = (153 * mp + 2) div 5 + int d - 1;
          doe = yoe * 365 + yoe div 4 - yoe div 100 + doy
      in era * 146097 + doe - 719468)"

text \<open>The date-only form \<open>YYYY-MM-DD\<close>, which the standard reads as UTC midnight.\<close>

definition iso_day :: "string \<Rightarrow> int option" where
  "iso_day s =
     (if length s = 10 \<and> s ! 4 = CHR ''-'' \<and> s ! 7 = CHR ''-'' then
        (case (number_val 0 (take 4 s), number_val 0 (take 2 (drop 5 s)),
               number_val 0 (drop 8 s)) of
           (Some y, Some m, Some d) \<Rightarrow>
             if 1 \<le> m \<and> m \<le> 12 \<and> 1 \<le> d \<and> d \<le> days_in_month y m
             then Some (days_from_civil y m d * 86400000) else None
         | _ \<Rightarrow> None)
      else None)"

text \<open>The time of day \<open>HH:mm:ss\<close> or \<open>HH:mm:ss.sss\<close>, in milliseconds.\<close>

definition iso_time :: "string \<Rightarrow> int option" where
  "iso_time s =
     (if (length s = 8 \<or> length s = 12 \<and> s ! 8 = CHR ''.'')
         \<and> s ! 2 = CHR '':'' \<and> s ! 5 = CHR '':'' then
        (case (number_val 0 (take 2 s), number_val 0 (take 2 (drop 3 s)),
               number_val 0 (take 2 (drop 6 s)), number_val 0 (drop 9 s)) of
           (Some h, Some mi, Some sec, Some ms) \<Rightarrow>
             if h \<le> 23 \<and> mi \<le> 59 \<and> sec \<le> 59
             then Some (int (((h * 60 + mi) * 60 + sec) * 1000 + ms)) else None
         | _ \<Rightarrow> None)
      else None)"

text \<open>
  The part of the standard's date-time format whose reading does not depend on the
  local time zone: \<open>YYYY-MM-DD\<close>, and \<open>YYYY-MM-DDTHH:mm:ss[.sss]Z\<close>.
\<close>

definition iso_utc :: "string \<Rightarrow> int option" where
  "iso_utc s =
     (if length s = 10 then iso_day s
      else if (length s = 20 \<or> length s = 24) \<and> s ! 10 = CHR ''T'' \<and> last s = CHR ''Z'' then
        (case (iso_day (take 10 s), iso_time (butlast (drop 11 s))) of
           (Some d, Some t) \<Rightarrow> Some (d + t)
         | _ \<Rightarrow> None)
      else None)"

text \<open>
  \<open>Date.parse\<close>: the standard's format first, then whatever else the engine accepts.
  \<open>None\<close> stands for \<open>NaN\<close>.
\<close>

definition Date_parse :: "'n engine \<Rightarrow> string \<Rightarrow> int option" where
  "Date_parse eng s = (case iso_utc s of Some t \<Rightarrow> Some t | None \<Rightarrow> legacyDate eng s)"

section \<open>ObjectId\<close>

definition hex_val :: "char \<Rightarrow> nat option" where
  "hex_val c =
     (let n = of_char c :: nat in
      if 48 \<le> n \<and> n \<le> 57 then Some (n - 48)
      else if 97 \<le> n \<and> n \<le> 102 then Some (n - 87)
      else if 65 \<le> n \<and> n \<le> 70 then Some (n - 55)
      else None)"

fun hex_bytes :: "string \<Rightarrow> nat list option" where
  "hex_bytes [] = Some []"
| "hex_bytes [c] = None"
| "hex_bytes (c # d # cs) =
     (case (hex_val c, hex_val d, hex_bytes cs) of
        (Some h, Some l, Some bs) \<Rightarrow> Some ((16 * h + l) # bs)
      | _ \<Rightarrow> None)"

text \<open>
  Modelled from the spec: the driver's \<open>ObjectId\<close> class is not part of the repository.
  The spec fixes the identifier format as 24 hexadecimal characters, has
  \<open>ObjectId.isValid\<close> recognise exactly these, and has the constructor raise a
  distinguishable error on any other string (non-hex or wrong length).
\<close>

definition ObjectId_isValid :: "string \<Rightarrow> bool" where
  "ObjectId_isValid s = (length s = 24 \<and> hex_bytes s \<noteq> None)"

definition new_ObjectId :: "string \<Rightarrow> error + 'n jsval" where
  "new_ObjectId s =
     (if length s = 24 then
        (case hex_bytes s of Some bs \<Rightarrow> Inr (JOid bs) | None \<Rightarrow> Inl BSONError)
      else Inl BSONError)"

section \<open>Objects and arrays\<close>

text \<open>
  \<open>obj[key] = v\<close> on a plain object: an own property keeps its place, a new one goes
  last. The key \<open>__proto__\<close> is the accessor of \<open>Object.prototype\<close>: assigning to it
  creates no own property.
\<close>

fun own_update :: "string \<Rightarrow> 'v \<Rightarrow> (string \<times> 'v) list \<Rightarrow> (string \<times> 'v) list" where
  "own_update k v [] = [(k, v)]"
| "own_update k v ((k', v') # ps) =
     (if k' = k then (k, v) # ps else (k', v') # own_update k v ps)"

definition obj_set :: "(string \<times> 'v) list \<Rightarrow> string \<Rightarrow> 'v \<Rightarrow> (string \<times> 'v) list" where
  "obj_set obj k v = (if k = ''__proto__'' then obj else own_update k v obj)"

text \<open>
  \<open>xs.map(f)\<close> where the callback may throw and may write to the element it is given:
  the elements as the call leaves them, and the new array or the error.
\<close>

fun array_map :: "('a \<Rightarrow> 'a \<times> (error + 'b)) \<Rightarrow> 'a list \<Rightarrow> 'a list \<times> (error + 'b list)" where
  "array_map f [] = ([], Inr [])"
| "array_map f (x # xs) =
     (case f x of
        (x', Inl e) \<Rightarrow> (x' # xs, Inl e)
      | (x', Inr y) \<Rightarrow>
          (case array_map f xs of
             (xs', Inl e) \<Rightarrow> (x' # xs', Inl e)
           | (xs', Inr ys) \<Rightarrow> (x' # xs', Inr (y # ys))))"

text \<open>\<open>value.map(f)\<close> on any value: only an array has a callable \<open>map\<close>.\<close>

definition js_map ::
  "('n jsval \<Rightarrow> 'n jsval \<times> (error + 'n jsval)) \<Rightarrow> 'n jsval \<Rightarrow> 'n jsval \<times> (error + 'n jsval)" where
  "js_map f value =
     (case value of
        JArr xs \<Rightarrow> (case array_map f xs of (xs', r) \<Rightarrow> (JArr xs', map_sum id JArr r))
      | _ \<Rightarrow> (value, Inl TypeError))"

section \<open>The callbacks of lines 85 to 119\<close>

text \<open>
  \<open>if (m.k && typeof m.k === 'string') m.k = new ObjectId(m.k)\<close>: reading a property
  of \<open>null\<close> throws; a primitive, an array, a \<open>Date\<close> or an \<open>ObjectId\<close> has no such
  property; the empty string is falsy. The result is the member after the statement and
  the error thrown, if any.
\<close>

definition oid_member :: "string \<Rightarrow> 'n jsval \<Rightarrow> 'n jsval \<times> error option" where
  "oid_member k m =
     (case m of
        JNull \<Rightarrow> (m, Some TypeError)
      | JObj ps \<Rightarrow>
          (case map_of ps k of
             Some (JStr s) \<Rightarrow>
               if s \<noteq> [] then
                 (case new_ObjectId s of
                    Inl e \<Rightarrow> (m, Some e)
                  | Inr oid \<Rightarrow> (JObj (obj_set ps k oid), None))
               else (m, None)
           | _ \<Rightarrow> (m, None))
      | _ \<Rightarrow> (m, None))"

text \<open>\<open>if (m.k && typeof m.k === 'string') m.k = new Date(m.k)\<close>.\<close>

definition date_member :: "'n engine \<Rightarrow> string \<Rightarrow> 'n jsval \<Rightarrow> 'n jsval \<times> error option" where
  "date_member eng k m =
     (case m of
        JNull \<Rightarrow> (m, Some TypeError)
      | JObj ps \<Rightarrow>
          (case map_of ps k of
             Some (JStr s) \<Rightarrow>
               if s \<noteq> [] then (JObj (obj_set ps k (JDate (Date_parse eng s))), None)
               else (m, None)
           | _ \<Rightarrow> (m, None))
      | _ \<Rightarrow> (m, None))"

text \<open>Lines 85 to 94: the callback returns the object it was given.\<close>

definition payment :: "'n engine \<Rightarrow> 'n jsval \<Rightarrow> 'n jsval \<times> (error + 'n jsval)" where
  "payment eng p =
     (case oid_member ''_id'' p of
        (p1, Some e) \<Rightarrow> (p1, Inl e)
      | (p1, None) \<Rightarrow>
          (case date_member eng ''date'' p1 of
             (p2, Some e) \<Rightarrow> (p2, Inl e)
           | (p2, None) \<Rightarrow> (p2, Inr p2)))"

text \<open>Lines 96 to 112.\<close>

definition purchasedProduct :: "'n jsval \<Rightarrow> 'n jsval \<times> (error + 'n jsval)" where
  "purchasedProduct p =
     (case oid_member ''_id'' p of
        (p1, Some e) \<Rightarrow> (p1, Inl e)
      | (p1, None) \<Rightarrow>
          (case oid_member ''productId'' p1 of
             (p2, Some e) \<Rightarrow> (p2, Inl e)
           | (p2, None) \<Rightarrow> (p2, Inr p2)))"

text \<open>Lines 115 to 119: the element is read, never written.\<close>

definition array_item :: "'n jsval \<Rightarrow> 'n jsval \<times> (error + 'n jsval)" where
  "array_item item =
     (case item of
        JStr s \<Rightarrow> if ObjectId_isValid s then (item, new_ObjectId s) else (item, Inr item)
      | _ \<Rightarrow> (item, Inr item))"

section \<open>convertTypes\<close>

text \<open>\<open>typeof value === 'string' && !isNaN(Date.parse(value))\<close>, with the time value.\<close>

definition date_string :: "'n engine \<Rightarrow> 'n jsval \<Rightarrow> int option" where
  "date_string eng value = (case value of JStr s \<Rightarrow> Date_parse eng s | _ \<Rightarrow> None)"

definition isArray :: "'n jsval \<Rightarrow> bool" where
  "isArray value = (case value of JArr xs \<Rightarrow> True | _ \<Rightarrow> False)"

definition string_of :: "'n jsval \<Rightarrow> string option" where
  "string_of value = (case value of JStr s \<Rightarrow> Some s | _ \<Rightarrow> None)"

text \<open>
  Lines 58 to 130. Each function returns a pair: its argument as the call leaves it
  (the callbacks of \<open>payments\<close> and \<open>purchasedProducts\<close> write to the elements they are
  given), and the value returned or the error thrown.

  \<open>convertTypes_each\<close> is \<open>data.map(convertTypes)\<close>. \<open>convertTypes_props\<close> is the loop
  of lines 65 to 125, with \<open>convertedData\<close> as accumulator. \<open>data.hasOwnProperty\<close> is
  looked up on \<open>data\<close> itself first: an own property of that name is a JSON value, not a
  function, and calling it throws. A \<open>Date\<close> has no own enumerable property.
\<close>

fun convertTypes :: "'n engine \<Rightarrow> 'n jsval \<Rightarrow> 'n jsval \<times> (error + 'n jsval)"
and convertTypes_each ::
  "'n engine \<Rightarrow> 'n jsval list \<Rightarrow> 'n jsval list \<times> (error + 'n jsval list)"
and convertTypes_props ::
  "'n engine \<Rightarrow> (string \<times> 'n jsval) list \<Rightarrow> (string \<times> 'n jsval) list
     \<Rightarrow> (string \<times> 'n jsval) list \<times> (error + (string \<times> 'n jsval) list)"
where
  "convertTypes eng (JArr xs) =
     (case convertTypes_each eng xs of (xs', r) \<Rightarrow> (JArr xs', map_sum id JArr r))"
| "convertTypes eng (JObj ps) =
     (if ''hasOwnProperty'' \<in> fst ` set ps then (JObj ps, Inl TypeError)
      else (case convertTypes_props eng [] ps of (ps', r) \<Rightarrow> (JObj ps', map_sum id JObj r)))"
| "convertTypes eng (JDate t) = (JDate t, Inr (JObj []))"
| "convertTypes eng (JOid b) = (JOid b, Inr (JObj (oidCopy eng b)))"
| "convertTypes eng v = (v, Inr v)"
| "convertTypes_each eng [] = ([], Inr [])"
| "convertTypes_each eng (x # xs) =
     (case convertTypes eng x of
        (x', Inl e) \<Rightarrow> (x' # xs, Inl e)
      | (x', Inr y) \<Rightarrow>
          (case convertTypes_each eng xs of
             (xs', Inl e) \<Rightarrow> (x' # xs', Inl e)
           | (xs', Inr ys) \<Rightarrow> (x' # xs', Inr (y # ys))))"
| "convertTypes_props eng convertedData [] = ([], Inr convertedData)"
| "convertTypes_props eng convertedData ((key, value) # ps) =
     (case
        (if key = ''name'' then (value, Inr value)
         else
           (case date_string eng value of
              Some t \<Rightarrow> (value, Inr (JDate (Some t)))
            | None \<Rightarrow>
                (case (if key = ''_id'' then string_of value else None) of
                   Some s \<Rightarrow> (value, new_ObjectId s)
                 | None \<Rightarrow>
                     if key = ''payments'' then js_map (payment eng) value
                     else if key = ''purchasedProducts'' then js_map purchasedProduct value
                     else if isArray value then js_map array_item value
                     else convertTypes eng value)))
      of
        (value', Inl e) \<Rightarrow> ((key, value') # ps, Inl e)
      | (value', Inr c) \<Rightarrow>
          (case convertTypes_props eng (obj_set convertedData key c) ps of
             (ps', r) \<Rightarrow> ((key, value') # ps', r)))"

text \<open>The value returned (or the error thrown), and the argument after the call.\<close>

definition convertTypes_result :: "'n engine \<Rightarrow> 'n jsval \<Rightarrow> error + 'n jsval" where
  "convertTypes_result eng v = snd (convertTypes eng v)"

definition convertTypes_argument :: "'n engine \<Rightarrow> 'n jsval \<Rightarrow> 'n jsval" where
  "convertTypes_argument eng v = fst (convertTypes eng v)"

text \<open>An engine that reads the standard's format only and a driver whose identifier
  objects show no own property.\<close>

definition strict_engine :: "'n engine" where
  "strict_engine = \<lparr> legacyDate = (\<lambda>s. None), oidCopy = (\<lambda>b. []) \<rparr>"

text \<open>
  The body of the loop for one property (lines 67 to 123): the property's value as the
  body leaves it, and the value stored in \<open>convertedData\<close> or the error thrown.
\<close>

definition convert_field ::
  "'n engine \<Rightarrow> string \<Rightarrow> 'n jsval \<Rightarrow> 'n jsval \<times> (error + 'n jsval)" where
  "convert_field eng key value =
     (if key = ''name'' then (value, Inr value)
      else
        (case date_string eng value of
           Some t \<Rightarrow> (value, Inr (JDate (Some t)))
         | None \<Rightarrow>
             (case (if key = ''_id'' then string_of value else None) of
                Some s \<Rightarrow> (value, new_ObjectId s)
              | None \<Rightarrow>
                  if key = ''payments'' then js_map (payment eng) value
                  else if key = ''purchasedProducts'' then js_map purchasedProduct value
                  else if isArray value then js_map array_item value
                  else convertTypes eng value)))"

section \<open>restoreBackup\<close>

text \<open>
  What the run does that can be seen from outside: the console lines (with the values
  interpolated into them) and the calls to the driver, in order.
\<close>

datatype 'n event =
    Log_Connecting
  | Call_connect
  | Log_Connected
  | Log_Reading
  | Log_NoData string
  | Log_Restoring string nat
  | Call_insertMany string "'n jsval list"
  | Log_Restored string nat
  | Log_Completed
  | Log_Error error
  | Call_close
  | Log_Closed

text \<open>
  The surroundings of one run: whether \<open>client.connect()\<close> throws, what
  \<open>require(backupFilePath)\<close> returns or throws, and the server's \<open>insertMany\<close>, which
  takes the state of the database, the collection name and the batch, and gives the new
  state and the error it rejects the batch with, if any. The backup file maps each
  collection name to an array of documents (section 6 of the spec); the list is in
  \<open>for ... in\<close> order.
\<close>

record ('n, 'db) world =
  connect :: "error option"
  backupFile :: "error + (string \<times> 'n jsval list) list"
  insertMany :: "'db \<Rightarrow> string \<Rightarrow> 'n jsval list \<Rightarrow> 'db \<times> error option"

text \<open>
  The loop of lines 149 to 171: the events, the database, and the error that left the
  loop, if any.
\<close>

fun restore_collections ::
  "'n engine \<Rightarrow> ('db \<Rightarrow> string \<Rightarrow> 'n jsval list \<Rightarrow> 'db \<times> error option) \<Rightarrow> 'db
     \<Rightarrow> (string \<times> 'n jsval list) list \<Rightarrow> 'n event list \<times> 'db \<times> error option" where
  "restore_collections eng ins db [] = ([], db, None)"
| "restore_collections eng ins db ((collectionName, collectionData) # rest) =
     (if length collectionData = 0 then
        (case restore_collections eng ins db rest of
           (evs, db', r) \<Rightarrow> (Log_NoData collectionName # evs, db', r))
      else
        (case snd (convertTypes_each eng collectionData) of
           Inl e \<Rightarrow> ([Log_Restoring collectionName (length collectionData)], db, Some e)
         | Inr convertedData \<Rightarrow>
             (case ins db collectionName convertedData of
                (db1, Some e) \<Rightarrow>
                  ([Log_Restoring collectionName (length collectionData),
                    Call_insertMany collectionName convertedData], db1, Some e)
              | (db1, None) \<Rightarrow>
                  (case restore_collections eng ins db1 rest of
                     (evs, db2, r) \<Rightarrow>
                       (Log_Restoring collectionName (length collectionData)
                          # Call_insertMany collectionName convertedData
                          # Log_Restored collectionName (length convertedData) # evs,
                        db2, r)))))"

text \<open>The \<open>try\<close> block of lines 138 to 173.\<close>

definition restore_try ::
  "'n engine \<Rightarrow> ('n, 'db) world \<Rightarrow> 'db \<Rightarrow> 'n event list \<times> 'db \<times> error option" where
  "restore_try eng w db =
     (case connect w of
        Some e \<Rightarrow> ([Log_Connecting, Call_connect], db, Some e)
      | None \<Rightarrow>
          (case backupFile w of
             Inl e \<Rightarrow> ([Log_Connecting, Call_connect, Log_Connected, Log_Reading], db, Some e)
           | Inr backupData \<Rightarrow>
               (case restore_collections eng (insertMany w) db backupData of
                  (evs, db', Some e) \<Rightarrow>
                    ([Log_Connecting, Call_connect, Log_Connected, Log_Reading] @ evs,
                     db', Some e)
                | (evs, db', None) \<Rightarrow>
                    ([Log_Connecting, Call_connect, Log_Connected, Log_Reading] @ evs
                       @ [Log_Completed], db', None))))"

text \<open>Lines 132 to 180: \<open>try\<close>, \<open>catch\<close>, \<open>finally\<close>.\<close>

definition restoreBackup ::
  "'n engine \<Rightarrow> ('n, 'db) world \<Rightarrow> 'db \<Rightarrow> 'n event list \<times> 'db" where
  "restoreBackup eng w db =
     (case restore_try eng w db of
        (evs, db', Some e) \<Rightarrow> (evs @ [Log_Error e, Call_close, Log_Closed], db')
      | (evs, db', None) \<Rightarrow> (evs @ [Call_close, Log_Closed], db'))"

text \<open>
  A server for the examples: the database is the list of batches it has taken, and it
  rejects every batch for the one collection named.
\<close>

definition rejecting ::
  "string \<Rightarrow> (string \<times> 'n jsval list) list \<Rightarrow> string \<Rightarrow> 'n jsval list
     \<Rightarrow> (string \<times> 'n jsval list) list \<times> error option" where
  "rejecting bad db collectionName docs =
     (if collectionName = bad then (db, Some (MongoError ''insert rejected''))
      else (db @ [(collectionName, docs)], None))"

section \<open>Observations on values\<close>

text \<open>
  The value with the contents of every \<open>payments\<close> and \<open>purchasedProducts\<close> property
  blanked out, at any depth: what is left is the part of a value outside these
  properties.
\<close>

fun outside_members :: "'n jsval \<Rightarrow> 'n jsval"
and outside_members_each :: "'n jsval list \<Rightarrow> 'n jsval list"
and outside_members_props :: "(string \<times> 'n jsval) list \<Rightarrow> (string \<times> 'n jsval) list"
where
  "outside_members (JArr xs) = JArr (outside_members_each xs)"
| "outside_members (JObj ps) = JObj (outside_members_props ps)"
| "outside_members v = v"
| "outside_members_each [] = []"
| "outside_members_each (x # xs) = outside_members x # outside_members_each xs"
| "outside_members_props [] = []"
| "outside_members_props ((k, v) # ps) =
     (k, if k = ''payments'' \<or> k = ''purchasedProducts'' then JNull else outside_members v)
       # outside_members_props ps"

text \<open>No object of the value, at any depth, has a property called \<open>__proto__\<close>.\<close>

fun proto_free :: "'n jsval \<Rightarrow> bool"
and proto_free_each :: "'n jsval list \<Rightarrow> bool"
and proto_free_props :: "(string \<times> 'n jsval) list \<Rightarrow> bool"
where
  "proto_free (JArr xs) = proto_free_each xs"
| "proto_free (JObj ps) = proto_free_props ps"
| "proto_free v = True"
| "proto_free_each [] = True"
| "proto_free_each (x # xs) = (proto_free x \<and> proto_free_each xs)"
| "proto_free_props [] = True"
| "proto_free_props ((k, v) # ps) = (k \<noteq> ''__proto__'' \<and> proto_free v \<and> proto_free_props ps)"

section \<open>The restore loop\<close>

text \<open>A prefix of collections that is restored without error leaves the loop where a
  run on the remaining collections would start.\<close>

lemma restore_collections_append:
  "restore_collections eng ins db pre = (evs, db1, None) \<Longrightarrow>
   restore_collections eng ins db (pre @ rest) =
     (case restore_collections eng ins db1 rest of
        (evs2, db2, r) \<Rightarrow> (evs @ evs2, db2, r))"
proof (induction pre arbitrary: db evs)
  case Nil
  then show ?case by (simp split: prod.splits)
next
  case (Cons c pre)
  obtain n docs where c: "c = (n, docs)" by (cases c)
  show ?case
  proof (cases "docs = []")
    case True
    with Cons.prems c obtain evs0 where
      r: "restore_collections eng ins db pre = (evs0, db1, None)" and e: "evs = Log_NoData n # evs0"
      by (auto split: prod.splits)
    from Cons.IH [OF r] show ?thesis using True c e
      by (simp split: prod.splits)
  next
    case False
    with Cons.prems c obtain conv dbm evs0 where
      cv: "snd (convertTypes_each eng docs) = Inr conv" and
      ins: "ins db n conv = (dbm, None)" and
      r: "restore_collections eng ins dbm pre = (evs0, db1, None)" and
      e: "evs = Log_Restoring n (length docs) # Call_insertMany n conv
                  # Log_Restored n (length conv) # evs0"
      by (auto split: prod.splits sum.splits option.splits)
    from Cons.IH [OF r] show ?thesis using False c e cv ins
      by (simp split: prod.splits)
  qed
qed




text \<open>
  Claim C1, as stated, fails: the \<open>try\<close> block encloses the whole loop. With two
  collections and a server that rejects the batch of the first, the second collection
  is neither converted nor submitted.
\<close>

theorem insert_failure_counterexample:
  "restoreBackup (strict_engine :: int engine)
     \<lparr> connect = None,
       backupFile = Inr [(''a'', [JObj [(''x'', JNum 1)]]), (''b'', [JObj [(''y'', JNum 2)]])],
       insertMany = rejecting ''a'' \<rparr> []
   = ([Log_Connecting, Call_connect, Log_Connected, Log_Reading,
       Log_Restoring ''a'' 1, Call_insertMany ''a'' [JObj [(''x'', JNum 1)]],
       Log_Error (MongoError ''insert rejected''), Call_close, Log_Closed], [])"
  by code_simp

text \<open>
  Claim C1, amended. When the conversion or the insert of a collection fails, the run
  logs that error once, submits nothing further and closes the connection: the events
  and the database are those up to the failure, whatever collections follow.
\<close>

theorem failure_ends_the_loop:
  assumes pre: "restore_collections eng ins db pre = (evs, db1, None)"
    and docs: "docs \<noteq> []"
    and fails: "snd (convertTypes_each eng docs) = Inl e
                \<or> (\<exists>conv. snd (convertTypes_each eng docs) = Inr conv
                      \<and> snd (ins db1 name conv) = Some e)"
  shows "restoreBackup eng \<lparr> connect = None, backupFile = Inr (pre @ (name, docs) # rest),
                             insertMany = ins \<rparr> db
         = ([Log_Connecting, Call_connect, Log_Connected, Log_Reading] @ evs
              @ Log_Restoring name (length docs)
              # (case snd (convertTypes_each eng docs) of
                   Inl e' \<Rightarrow> [] | Inr conv \<Rightarrow> [Call_insertMany name conv])
              @ [Log_Error e, Call_close, Log_Closed],
            (case snd (convertTypes_each eng docs) of
               Inl e' \<Rightarrow> db1 | Inr conv \<Rightarrow> fst (ins db1 name conv)))"
proof -
  have "restore_collections eng ins db1 ((name, docs) # rest)
        = (Log_Restoring name (length docs)
              # (case snd (convertTypes_each eng docs) of
                   Inl e' \<Rightarrow> [] | Inr conv \<Rightarrow> [Call_insertMany name conv]),
           (case snd (convertTypes_each eng docs) of
               Inl e' \<Rightarrow> db1 | Inr conv \<Rightarrow> fst (ins db1 name conv)), Some e)"
    using docs fails by (auto split: prod.splits sum.splits option.splits)
  with restore_collections_append [OF pre, of "(name, docs) # rest"]
  show ?thesis
    by (simp add: restoreBackup_def restore_try_def)
qed

theorem failure_ends_the_loop_witness:
  "restore_collections (strict_engine :: int engine) (rejecting ''b'') []
     [(''a'', [JObj [(''x'', JNum 1)]])]
     = ([Log_Restoring ''a'' 1, Call_insertMany ''a'' [JObj [(''x'', JNum 1)]],
         Log_Restored ''a'' 1], [(''a'', [JObj [(''x'', JNum 1)]])], None)
   \<and> [JObj [(''y'', JNum (2::int))]] \<noteq> []
   \<and> snd (convertTypes_each (strict_engine :: int engine) [JObj [(''y'', JNum 2)]])
        = Inr [JObj [(''y'', JNum 2)]]
   \<and> snd (rejecting ''b'' [(''a'', [JObj [(''x'', JNum 1)]])] ''b'' [JObj [(''y'', JNum (2::int))]])
        = Some (MongoError ''insert rejected'')
   \<and> restoreBackup (strict_engine :: int engine)
        \<lparr> connect = None,
          backupFile = Inr ([(''a'', [JObj [(''x'', JNum 1)]])]
                             @ (''b'', [JObj [(''y'', JNum 2)]]) # [(''c'', [JObj [(''z'', JNum 3)]])]),
          insertMany = rejecting ''b'' \<rparr> []
      = ([Log_Connecting, Call_connect, Log_Connected, Log_Reading,
          Log_Restoring ''a'' 1, Call_insertMany ''a'' [JObj [(''x'', JNum 1)]],
          Log_Restored ''a'' 1,
          Log_Restoring ''b'' 1, Call_insertMany ''b'' [JObj [(''y'', JNum 2)]],
          Log_Error (MongoError ''insert rejected''), Call_close, Log_Closed],
         [(''a'', [JObj [(''x'', JNum 1)]])])"
proof -
  have h: "restore_collections (strict_engine :: int engine) (rejecting ''b'') []
     [(''a'', [JObj [(''x'', JNum 1)]])]
     = ([Log_Restoring ''a'' 1, Call_insertMany ''a'' [JObj [(''x'', JNum 1)]],
         Log_Restored ''a'' 1], [(''a'', [JObj [(''x'', JNum 1)]])], None)"
    by code_simp
  have d: "[JObj [(''y'', JNum (2::int))]] \<noteq> []" by simp
  have c: "snd (convertTypes_each (strict_engine :: int engine) [JObj [(''y'', JNum 2)]])
        = Inr [JObj [(''y'', JNum 2)]]"
    by code_simp
  have i: "snd (rejecting ''b'' [(''a'', [JObj [(''x'', JNum 1)]])] ''b'' [JObj [(''y'', JNum (2::int))]])
        = Some (MongoError ''insert rejected'')"
    by (simp add: rejecting_def)
  have f: "snd (convertTypes_each (strict_engine :: int engine) [JObj [(''y'', JNum 2)]])
             = Inl (MongoError ''insert rejected'')
           \<or> (\<exists>conv. snd (convertTypes_each (strict_engine :: int engine) [JObj [(''y'', JNum 2)]])
                      = Inr conv
                 \<and> snd (rejecting ''b'' [(''a'', [JObj [(''x'', JNum 1)]])] ''b'' conv)
                      = Some (MongoError ''insert rejected''))"
    using c i by simp
  have j: "fst (rejecting ''b'' [(''a'', [JObj [(''x'', JNum 1)]])] ''b'' [JObj [(''y'', JNum (2::int))]])
        = [(''a'', [JObj [(''x'', JNum 1)]])]"
    by (simp add: rejecting_def)
  have g: "restoreBackup (strict_engine :: int engine)
        \<lparr> connect = None,
          backupFile = Inr ([(''a'', [JObj [(''x'', JNum 1)]])]
                             @ (''b'', [JObj [(''y'', JNum 2)]]) # [(''c'', [JObj [(''z'', JNum 3)]])]),
          insertMany = rejecting ''b'' \<rparr> []
      = ([Log_Connecting, Call_connect, Log_Connected, Log_Reading,
          Log_Restoring ''a'' 1, Call_insertMany ''a'' [JObj [(''x'', JNum 1)]],
          Log_Restored ''a'' 1,
          Log_Restoring ''b'' 1, Call_insertMany ''b'' [JObj [(''y'', JNum 2)]],
          Log_Error (MongoError ''insert rejected''), Call_close, Log_Closed],
         [(''a'', [JObj [(''x'', JNum 1)]])])"
    using failure_ends_the_loop [OF h d f, of "[(''c'', [JObj [(''z'', JNum 3)]])]"]
    unfolding c by (simp add: j)
  show ?thesis by (intro conjI h d c i g)
qed

section \<open>The property loop\<close>

lemma convertTypes_props_Cons:
  "convertTypes_props eng acc ((key, value) # ps) =
     (case convert_field eng key value of
        (value', Inl e) \<Rightarrow> ((key, value') # ps, Inl e)
      | (value', Inr c) \<Rightarrow>
          (case convertTypes_props eng (obj_set acc key c) ps of
             (ps', r) \<Rightarrow> ((key, value') # ps', r)))"
  by (simp add: convert_field_def)

lemmas [simp del] = convertTypes_props.simps(2)

lemma map_of_own_update: "map_of (own_update k v ps) = (map_of ps)(k \<mapsto> v)"
  by (induction ps) (auto simp: fun_eq_iff)

lemma map_of_obj_set:
  "map_of (obj_set ps k v) k' =
     (if k = ''__proto__'' then map_of ps k' else if k' = k then Some v else map_of ps k')"
  by (simp add: obj_set_def map_of_own_update)

lemma keys_own_update:
  "map fst (own_update k v ps) = (if k \<in> fst ` set ps then map fst ps else map fst ps @ [k])"
  by (induction ps) force+

lemma props_untouched_key:
  "convertTypes_props eng acc ps = (ps', Inr res) \<Longrightarrow>
   k \<notin> fst ` set ps \<or> k = ''__proto__'' \<Longrightarrow> map_of res k = map_of acc k"
proof (induction ps arbitrary: acc ps')
  case Nil
  then show ?case by simp
next
  case (Cons p ps)
  obtain k0 v0 where p: "p = (k0, v0)" by (cases p)
  from Cons.prems(1) p obtain v0' c ps0 where
    f: "convert_field eng k0 v0 = (v0', Inr c)" and
    r: "convertTypes_props eng (obj_set acc k0 c) ps = (ps0, Inr res)"
    by (auto simp: convertTypes_props_Cons split: prod.splits sum.splits)
  have "k \<notin> fst ` set ps \<or> k = ''__proto__''" using Cons.prems(2) by auto
  from Cons.IH [OF r this] show ?case using Cons.prems(2) p
    by (auto simp: map_of_obj_set)
qed

lemma props_field:
  "convertTypes_props eng acc ps = (ps', Inr res) \<Longrightarrow> distinct (map fst ps) \<Longrightarrow>
   (k, v) \<in> set ps \<Longrightarrow> k \<noteq> ''__proto__'' \<Longrightarrow>
   \<exists>v' c. convert_field eng k v = (v', Inr c) \<and> map_of res k = Some c"
proof (induction ps arbitrary: acc ps')
  case Nil
  then show ?case by simp
next
  case (Cons p ps)
  obtain k0 v0 where p: "p = (k0, v0)" by (cases p)
  from Cons.prems(1) p obtain v0' c ps0 where
    f: "convert_field eng k0 v0 = (v0', Inr c)" and
    r: "convertTypes_props eng (obj_set acc k0 c) ps = (ps0, Inr res)"
    by (auto simp: convertTypes_props_Cons split: prod.splits sum.splits)
  show ?case
  proof (cases "(k, v) = (k0, v0)")
    case True
    then have "k \<notin> fst ` set ps" using Cons.prems(2) p by auto
    then have "map_of res k = map_of (obj_set acc k0 c) k"
      using props_untouched_key [OF r] by blast
    then show ?thesis using True f Cons.prems(4) by (auto simp: map_of_obj_set)
  next
    case False
    then have "(k, v) \<in> set ps" using Cons.prems(3) p by auto
    moreover have "distinct (map fst ps)" using Cons.prems(2) by simp
    ultimately show ?thesis using Cons.IH [OF r] Cons.prems(4) by blast
  qed
qed

lemma props_error:
  "(k, v) \<in> set ps \<Longrightarrow> snd (convert_field eng k v) = Inl e \<Longrightarrow>
   \<exists>e'. snd (convertTypes_props eng acc ps) = Inl e'"
proof (induction ps arbitrary: acc)
  case Nil
  then show ?case by simp
next
  case (Cons p ps)
  obtain k0 v0 where p: "p = (k0, v0)" by (cases p)
  show ?case
  proof (cases "snd (convert_field eng k0 v0)")
    case (Inl e0)
    then show ?thesis using p
      by (auto simp: convertTypes_props_Cons split: prod.splits sum.splits)
  next
    case (Inr c)
    then have "(k, v) \<in> set ps" using Cons.prems p by auto
    from Cons.IH [OF this Cons.prems(2), of "obj_set acc k0 c"] show ?thesis using p Inr
      by (auto simp: convertTypes_props_Cons split: prod.splits sum.splits)
  qed
qed

lemma result_obj:
  "convertTypes_result eng (JObj ps) = Inr r \<Longrightarrow>
   ''hasOwnProperty'' \<notin> fst ` set ps \<and>
   (\<exists>ps' res. convertTypes_props eng [] ps = (ps', Inr res) \<and> r = JObj res)"
  by (cases "snd (convertTypes_props eng [] ps)")
     (auto simp: convertTypes_result_def split: if_splits prod.splits)

lemma result_obj_error:
  "snd (convertTypes_props eng [] ps) = Inl e \<Longrightarrow> \<exists>e'. convertTypes_result eng (JObj ps) = Inl e'"
  by (auto simp: convertTypes_result_def split: if_splits prod.splits sum.splits)

lemma js_map_not_array: "\<not> isArray v \<Longrightarrow> js_map f v = (v, Inl TypeError)"
  by (cases v) (simp_all add: js_map_def isArray_def)

section \<open>Identifiers, arrays and the callbacks\<close>

text \<open>The constructor accepts exactly the strings that \<open>ObjectId.isValid\<close> accepts.\<close>

lemma new_ObjectId_valid:
  "ObjectId_isValid s \<Longrightarrow> \<exists>b. hex_bytes s = Some b \<and> new_ObjectId s = Inr (JOid b)"
  by (auto simp: ObjectId_isValid_def new_ObjectId_def)


lemma new_ObjectId_Inr:
  "new_ObjectId s = Inr c \<Longrightarrow> ObjectId_isValid s \<and> (\<exists>b. hex_bytes s = Some b \<and> c = JOid b)"
  by (auto simp: ObjectId_isValid_def new_ObjectId_def split: if_splits option.splits)



text \<open>\<open>map\<close> with a callback that may throw.\<close>

lemma array_map_success:
  "array_map f xs = (xs', Inr ys) \<Longrightarrow>
   length ys = length xs \<and> length xs' = length xs \<and>
   (\<forall>i<length xs. f (xs ! i) = (xs' ! i, Inr (ys ! i)))"
proof (induction xs arbitrary: xs' ys)
  case Nil
  then show ?case by simp
next
  case (Cons x xs)
  from Cons.prems obtain x' y xs0 ys0 where
    f: "f x = (x', Inr y)" and r: "array_map f xs = (xs0, Inr ys0)" and
    e: "xs' = x' # xs0" "ys = y # ys0"
    by (auto split: prod.splits sum.splits)
  from Cons.IH [OF r] f e show ?case
    by (auto simp: nth_Cons split: nat.splits)
qed


lemma array_map_unchanged:
  "(\<And>x. \<exists>y. f x = (x, Inr y)) \<Longrightarrow> \<exists>ys. array_map f xs = (xs, Inr ys)"
proof (induction xs)
  case Nil
  then show ?case by simp
next
  case (Cons x xs)
  from Cons.IH [OF Cons.prems] obtain ys where r: "array_map f xs = (xs, Inr ys)" by blast
  from Cons.prems [of x] obtain y where f: "f x = (x, Inr y)" by blast
  from r f show ?case by simp
qed

lemma array_map_fixed:
  "(\<And>y. y \<in> set ys \<Longrightarrow> f y = (y, Inr y)) \<Longrightarrow> array_map f ys = (ys, Inr ys)"
  by (induction ys) simp_all

lemma array_map_idem:
  assumes "array_map f xs = (xs', Inr ys)"
    and "\<And>x x' y. f x = (x', Inr y) \<Longrightarrow> f y = (y, Inr y)"
  shows "array_map f ys = (ys, Inr ys)"
proof (rule array_map_fixed)
  fix y assume "y \<in> set ys"
  then obtain i where i: "i < length ys" "ys ! i = y" by (auto simp: in_set_conv_nth)
  with array_map_success [OF assms(1)] have "f (xs ! i) = (xs' ! i, Inr y)" by auto
  then show "f y = (y, Inr y)" by (rule assms(2))
qed

lemma js_map_array:
  "js_map f (JArr xs) = (JArr (fst (array_map f xs)), map_sum id JArr (snd (array_map f xs)))"
  by (simp add: js_map_def split: prod.splits)

lemma js_map_Inr:
  "js_map f v = (v', Inr c) \<Longrightarrow>
   \<exists>xs xs' ys. v = JArr xs \<and> c = JArr ys \<and> array_map f xs = (xs', Inr ys)"
  by (cases v; cases "array_map f (case v of JArr xs \<Rightarrow> xs)";
      cases "snd (array_map f (case v of JArr xs \<Rightarrow> xs))")
     (auto simp: js_map_def)


text \<open>The callback of a generic array: it never throws and never writes.\<close>

lemma array_item_total:
  "\<exists>y. array_item x = (x, Inr y) \<and>
       (case x of
          JStr s \<Rightarrow> if ObjectId_isValid s then new_ObjectId s = Inr y else y = x
        | _ \<Rightarrow> y = x)"
  by (cases x) (auto simp: array_item_def dest: new_ObjectId_valid)

lemma array_map_item:
  "\<exists>ys. array_map array_item xs = (xs, Inr ys) \<and> length ys = length xs \<and>
     (\<forall>i<length xs.
        case xs ! i of
          JStr s \<Rightarrow> if ObjectId_isValid s then new_ObjectId s = Inr (ys ! i) else ys ! i = xs ! i
        | _ \<Rightarrow> ys ! i = xs ! i)"
proof -
  have "\<And>x. \<exists>y. array_item x = (x, Inr y)" using array_item_total by blast
  from array_map_unchanged [of array_item xs, OF this] obtain ys where
    r: "array_map array_item xs = (xs, Inr ys)" by blast
  note s = array_map_success [OF r]
  have "case xs ! i of
          JStr s \<Rightarrow> if ObjectId_isValid s then new_ObjectId s = Inr (ys ! i) else ys ! i = xs ! i
        | _ \<Rightarrow> ys ! i = xs ! i" if "i < length xs" for i
  proof -
    from s that have e: "array_item (xs ! i) = (xs ! i, Inr (ys ! i))" by blast
    from array_item_total [of "xs ! i"] obtain y where
      "array_item (xs ! i) = (xs ! i, Inr y)" and
      p: "case xs ! i of
          JStr s \<Rightarrow> if ObjectId_isValid s then new_ObjectId s = Inr y else y = xs ! i
        | _ \<Rightarrow> y = xs ! i" by blast
    with e have y: "ys ! i = y" by simp
    show ?thesis unfolding y by (rule p)
  qed
  with r s show ?thesis by blast
qed

lemma array_item_fst: "fst (array_map array_item xs) = xs"
  using array_map_item [of xs] by auto

lemma array_item_idem: "array_item x = (x', Inr y) \<Longrightarrow> array_item y = (y, Inr y)"
  by (cases x) (auto simp: array_item_def split: if_splits dest: new_ObjectId_Inr)


text \<open>The two statements of the member callbacks, on a document and on anything else.\<close>

lemma keys_obj_set:
  "map_of fs k = Some v \<Longrightarrow> k \<noteq> ''__proto__'' \<Longrightarrow> map fst (obj_set fs k w) = map fst fs"
  by (auto simp: obj_set_def keys_own_update dest: map_of_SomeD intro: rev_image_eqI)

lemma oid_member_obj:
  assumes "oid_member k (JObj fs) = (m', None)" and "k \<noteq> ''__proto__''"
  shows "\<exists>fs'. m' = JObj fs' \<and> map fst fs' = map fst fs \<and>
           (\<forall>k'. k' \<noteq> k \<longrightarrow> map_of fs' k' = map_of fs k') \<and>
           (\<forall>s. map_of fs k = Some (JStr s) \<and> s \<noteq> [] \<longrightarrow>
                  (\<exists>b. hex_bytes s = Some b \<and> map_of fs' k = Some (JOid b))) \<and>
           ((\<forall>s. map_of fs k = Some (JStr s) \<longrightarrow> s = []) \<longrightarrow> fs' = fs)"
proof (cases "\<exists>s. map_of fs k = Some (JStr s) \<and> s \<noteq> []")
  case True
  then obtain s where s: "map_of fs k = Some (JStr s)" "s \<noteq> []" by blast
  with assms(1) obtain oid where o: "new_ObjectId s = Inr oid" and m: "m' = JObj (obj_set fs k oid)"
    by (auto simp: oid_member_def split: sum.splits)
  from new_ObjectId_Inr [OF o] obtain b where b: "hex_bytes s = Some b" "oid = JOid b" by blast
  have "map fst (obj_set fs k oid) = map fst fs" using s(1) assms(2) by (rule keys_obj_set)
  moreover have "\<forall>k'. k' \<noteq> k \<longrightarrow> map_of (obj_set fs k oid) k' = map_of fs k'"
    by (simp add: map_of_obj_set)
  moreover have "map_of (obj_set fs k oid) k = Some (JOid b)"
    using assms(2) b by (simp add: map_of_obj_set)
  ultimately show ?thesis using m s b by auto
next
  case False
  then have "m' = JObj fs" using assms(1)
    by (auto simp: oid_member_def split: option.splits jsval.splits if_splits)
  with False show ?thesis by auto
qed



lemma oid_member_noop:
  "(\<forall>s. map_of fs k = Some (JStr s) \<longrightarrow> s = []) \<Longrightarrow> oid_member k (JObj fs) = (JObj fs, None)"
  by (cases "map_of fs k"; cases "the (map_of fs k)") (auto simp: oid_member_def)

lemma oid_member_other:
  "(\<And>fs. m \<noteq> JObj fs) \<Longrightarrow> m \<noteq> JNull \<Longrightarrow> oid_member k m = (m, None)"
  by (cases m) (auto simp: oid_member_def)

lemma oid_member_null: "oid_member k JNull = (JNull, Some TypeError)"
  by (simp add: oid_member_def)

lemma date_member_obj:
  assumes "date_member eng k (JObj fs) = (m', r)" and "k \<noteq> ''__proto__''"
  shows "r = None \<and> (\<exists>fs'. m' = JObj fs' \<and> map fst fs' = map fst fs \<and>
           (\<forall>k'. k' \<noteq> k \<longrightarrow> map_of fs' k' = map_of fs k') \<and>
           (\<forall>s. map_of fs k = Some (JStr s) \<and> s \<noteq> [] \<longrightarrow>
                  map_of fs' k = Some (JDate (Date_parse eng s))) \<and>
           ((\<forall>s. map_of fs k = Some (JStr s) \<longrightarrow> s = []) \<longrightarrow> fs' = fs))"
proof (cases "\<exists>s. map_of fs k = Some (JStr s) \<and> s \<noteq> []")
  case True
  then obtain s where s: "map_of fs k = Some (JStr s)" "s \<noteq> []" by blast
  with assms(1) have m: "m' = JObj (obj_set fs k (JDate (Date_parse eng s)))" and r: "r = None"
    by (auto simp: date_member_def)
  have "map fst (obj_set fs k (JDate (Date_parse eng s))) = map fst fs"
    using s(1) assms(2) by (rule keys_obj_set)
  moreover have "\<forall>k'. k' \<noteq> k \<longrightarrow> map_of (obj_set fs k (JDate (Date_parse eng s))) k' = map_of fs k'"
    by (simp add: map_of_obj_set)
  moreover have "map_of (obj_set fs k (JDate (Date_parse eng s))) k = Some (JDate (Date_parse eng s))"
    using assms(2) by (simp add: map_of_obj_set)
  ultimately show ?thesis using m r s by auto
next
  case False
  then have "m' = JObj fs \<and> r = None" using assms(1)
    by (auto simp: date_member_def split: option.splits jsval.splits if_splits)
  with False show ?thesis by auto
qed

lemma date_member_noop:
  "(\<forall>s. map_of fs k = Some (JStr s) \<longrightarrow> s = []) \<Longrightarrow>
   date_member eng k (JObj fs) = (JObj fs, None)"
  by (cases "map_of fs k"; cases "the (map_of fs k)") (auto simp: date_member_def)

lemma date_member_other:
  "(\<And>fs. m \<noteq> JObj fs) \<Longrightarrow> m \<noteq> JNull \<Longrightarrow> date_member eng k m = (m, None)"
  by (cases m) (auto simp: date_member_def)

lemma payment_obj:
  assumes "payment eng (JObj fs) = (m', Inr m2)"
  shows "\<exists>fs'. m2 = JObj fs' \<and> m' = m2 \<and> map fst fs' = map fst fs \<and>
           (\<forall>k. k \<noteq> ''_id'' \<and> k \<noteq> ''date'' \<longrightarrow> map_of fs' k = map_of fs k) \<and>
           (\<forall>s. map_of fs ''_id'' = Some (JStr s) \<and> s \<noteq> [] \<longrightarrow>
                  (\<exists>b. hex_bytes s = Some b \<and> map_of fs' ''_id'' = Some (JOid b))) \<and>
           ((\<forall>s. map_of fs ''_id'' = Some (JStr s) \<longrightarrow> s = []) \<longrightarrow>
                  map_of fs' ''_id'' = map_of fs ''_id'') \<and>
           (\<forall>s. map_of fs ''date'' = Some (JStr s) \<and> s \<noteq> [] \<longrightarrow>
                  map_of fs' ''date'' = Some (JDate (Date_parse eng s))) \<and>
           ((\<forall>s. map_of fs ''date'' = Some (JStr s) \<longrightarrow> s = []) \<longrightarrow>
                  map_of fs' ''date'' = map_of fs ''date'') \<and>
           (map_of fs ''_id'' = None \<and> map_of fs ''date'' = None \<longrightarrow> m2 = JObj fs)"
proof -
  from assms obtain m1 where
    o: "oid_member ''_id'' (JObj fs) = (m1, None)" and
    d: "date_member eng ''date'' m1 = (m', None)" and e: "m2 = m'"
    by (auto simp: payment_def split: prod.splits option.splits)
  from oid_member_obj [OF o] obtain fs1 where
    m1: "m1 = JObj fs1" and k1: "map fst fs1 = map fst fs" and
    o1: "\<forall>k'. k' \<noteq> ''_id'' \<longrightarrow> map_of fs1 k' = map_of fs k'" and
    i1: "\<forall>s. map_of fs ''_id'' = Some (JStr s) \<and> s \<noteq> [] \<longrightarrow>
                  (\<exists>b. hex_bytes s = Some b \<and> map_of fs1 ''_id'' = Some (JOid b))" and
    u1: "(\<forall>s. map_of fs ''_id'' = Some (JStr s) \<longrightarrow> s = []) \<longrightarrow> fs1 = fs"
    by auto
  from date_member_obj [OF d [unfolded m1]] obtain fs2 where
    m2: "m' = JObj fs2" and k2: "map fst fs2 = map fst fs1" and
    o2: "\<forall>k'. k' \<noteq> ''date'' \<longrightarrow> map_of fs2 k' = map_of fs1 k'" and
    i2: "\<forall>s. map_of fs1 ''date'' = Some (JStr s) \<and> s \<noteq> [] \<longrightarrow>
                  map_of fs2 ''date'' = Some (JDate (Date_parse eng s))" and
    u2: "(\<forall>s. map_of fs1 ''date'' = Some (JStr s) \<longrightarrow> s = []) \<longrightarrow> fs2 = fs1"
    by auto
  have dd: "map_of fs1 ''date'' = map_of fs ''date''" using o1 by simp
  have ii: "map_of fs2 ''_id'' = map_of fs1 ''_id''" using o2 by simp
  have "map fst fs2 = map fst fs" using k1 k2 by simp
  moreover have "\<forall>k. k \<noteq> ''_id'' \<and> k \<noteq> ''date'' \<longrightarrow> map_of fs2 k = map_of fs k"
    using o1 o2 by simp
  moreover have "\<forall>s. map_of fs ''_id'' = Some (JStr s) \<and> s \<noteq> [] \<longrightarrow>
                  (\<exists>b. hex_bytes s = Some b \<and> map_of fs2 ''_id'' = Some (JOid b))"
    using i1 ii by simp
  moreover have "(\<forall>s. map_of fs ''_id'' = Some (JStr s) \<longrightarrow> s = []) \<longrightarrow>
                  map_of fs2 ''_id'' = map_of fs ''_id''"
    using u1 ii by auto
  moreover have "\<forall>s. map_of fs ''date'' = Some (JStr s) \<and> s \<noteq> [] \<longrightarrow>
                  map_of fs2 ''date'' = Some (JDate (Date_parse eng s))"
    using i2 dd by simp
  moreover have "(\<forall>s. map_of fs ''date'' = Some (JStr s) \<longrightarrow> s = []) \<longrightarrow>
                  map_of fs2 ''date'' = map_of fs ''date''"
    using u2 dd by auto
  moreover have "map_of fs ''_id'' = None \<and> map_of fs ''date'' = None \<longrightarrow> m2 = JObj fs"
    using u1 u2 dd m2 e by auto
  moreover have "m2 = JObj fs2" "m' = m2" using m2 e by simp_all
  ultimately show ?thesis by blast
qed

lemma payment_idem:
  assumes "payment eng m = (m', Inr m2)"
  shows "payment eng m2 = (m2, Inr m2)"
proof (cases "\<exists>fs. m = JObj fs")
  case True
  then obtain fs where m: "m = JObj fs" by blast
  from payment_obj [OF assms [unfolded m]] obtain fs' where
    m2: "m2 = JObj fs'" and
    i1: "\<forall>s. map_of fs ''_id'' = Some (JStr s) \<and> s \<noteq> [] \<longrightarrow>
                  (\<exists>b. hex_bytes s = Some b \<and> map_of fs' ''_id'' = Some (JOid b))" and
    i2: "(\<forall>s. map_of fs ''_id'' = Some (JStr s) \<longrightarrow> s = []) \<longrightarrow>
                  map_of fs' ''_id'' = map_of fs ''_id''" and
    d1: "\<forall>s. map_of fs ''date'' = Some (JStr s) \<and> s \<noteq> [] \<longrightarrow>
                  map_of fs' ''date'' = Some (JDate (Date_parse eng s))" and
    d2: "(\<forall>s. map_of fs ''date'' = Some (JStr s) \<longrightarrow> s = []) \<longrightarrow>
                  map_of fs' ''date'' = map_of fs ''date''"
    by blast
  have a: "\<forall>s. map_of fs' ''_id'' = Some (JStr s) \<longrightarrow> s = []"
  proof (cases "\<forall>s. map_of fs ''_id'' = Some (JStr s) \<longrightarrow> s = []")
    case True
    with i2 show ?thesis by simp
  next
    case False
    with i1 show ?thesis by auto
  qed
  have b: "\<forall>s. map_of fs' ''date'' = Some (JStr s) \<longrightarrow> s = []"
  proof (cases "\<forall>s. map_of fs ''date'' = Some (JStr s) \<longrightarrow> s = []")
    case True
    with d2 show ?thesis by simp
  next
    case False
    with d1 show ?thesis by auto
  qed
  show ?thesis unfolding m2
    by (simp add: payment_def oid_member_noop [OF a] date_member_noop [OF b])
next
  case False
  then have n: "\<And>fs. m \<noteq> JObj fs" by blast
  have "m \<noteq> JNull" using assms by (auto simp: payment_def oid_member_null)
  then have "payment eng m = (m, Inr m)"
    by (simp add: payment_def oid_member_other [OF n] date_member_other [OF n])
  with assms show ?thesis by auto
qed


lemma purchasedProduct_idem:
  assumes "purchasedProduct m = (m', Inr m2)"
  shows "purchasedProduct m2 = (m2, Inr m2)"
proof (cases "\<exists>fs. m = JObj fs")
  case True
  then obtain fs where m: "m = JObj fs" by blast
  from assms m obtain m1 where
    o: "oid_member ''_id'' (JObj fs) = (m1, None)" and
    d: "oid_member ''productId'' m1 = (m', None)" and e: "m2 = m'"
    by (auto simp: purchasedProduct_def split: prod.splits option.splits)
  from oid_member_obj [OF o] obtain fs1 where
    m1: "m1 = JObj fs1" and
    o1: "\<forall>k'. k' \<noteq> ''_id'' \<longrightarrow> map_of fs1 k' = map_of fs k'" and
    i1: "\<forall>s. map_of fs ''_id'' = Some (JStr s) \<and> s \<noteq> [] \<longrightarrow>
                  (\<exists>b. hex_bytes s = Some b \<and> map_of fs1 ''_id'' = Some (JOid b))" and
    u1: "(\<forall>s. map_of fs ''_id'' = Some (JStr s) \<longrightarrow> s = []) \<longrightarrow> fs1 = fs"
    by auto
  from oid_member_obj [OF d [unfolded m1]] obtain fs2 where
    m2: "m' = JObj fs2" and
    o2: "\<forall>k'. k' \<noteq> ''productId'' \<longrightarrow> map_of fs2 k' = map_of fs1 k'" and
    i2: "\<forall>s. map_of fs1 ''productId'' = Some (JStr s) \<and> s \<noteq> [] \<longrightarrow>
                  (\<exists>b. hex_bytes s = Some b \<and> map_of fs2 ''productId'' = Some (JOid b))" and
    u2: "(\<forall>s. map_of fs1 ''productId'' = Some (JStr s) \<longrightarrow> s = []) \<longrightarrow> fs2 = fs1"
    by auto
  have ii: "map_of fs2 ''_id'' = map_of fs1 ''_id''" using o2 by simp
  have a: "\<forall>s. map_of fs2 ''_id'' = Some (JStr s) \<longrightarrow> s = []"
  proof (cases "\<forall>s. map_of fs ''_id'' = Some (JStr s) \<longrightarrow> s = []")
    case True
    with u1 ii show ?thesis by simp
  next
    case False
    with i1 ii show ?thesis by auto
  qed
  have b: "\<forall>s. map_of fs2 ''productId'' = Some (JStr s) \<longrightarrow> s = []"
  proof (cases "\<forall>s. map_of fs1 ''productId'' = Some (JStr s) \<longrightarrow> s = []")
    case True
    with u2 show ?thesis by simp
  next
    case False
    with i2 show ?thesis by auto
  qed
  show ?thesis unfolding e m2
    by (simp add: purchasedProduct_def oid_member_noop [OF a] oid_member_noop [OF b])
next
  case False
  then have n: "\<And>fs. m \<noteq> JObj fs" by blast
  have "m \<noteq> JNull" using assms by (auto simp: purchasedProduct_def oid_member_null)
  then have "purchasedProduct m = (m, Inr m)"
    by (simp add: purchasedProduct_def oid_member_other [OF n])
  with assms show ?thesis by auto
qed


section \<open>The body of the property loop, rule by rule\<close>

lemma convert_field_name: "convert_field eng ''name'' v = (v, Inr v)"
  by (simp add: convert_field_def)

lemma convert_field_date:
  "key \<noteq> ''name'' \<Longrightarrow> date_string eng v = Some t \<Longrightarrow>
   convert_field eng key v = (v, Inr (JDate (Some t)))"
  by (simp add: convert_field_def)

lemma convert_field_id:
  "date_string eng v = None \<Longrightarrow> string_of v = Some s \<Longrightarrow>
   convert_field eng ''_id'' v = (v, new_ObjectId s)"
  by (simp add: convert_field_def)

lemma convert_field_payments:
  "date_string eng v = None \<Longrightarrow> convert_field eng ''payments'' v = js_map (payment eng) v"
  by (simp add: convert_field_def)

lemma convert_field_purchasedProducts:
  "date_string eng v = None \<Longrightarrow>
   convert_field eng ''purchasedProducts'' v = js_map purchasedProduct v"
  by (simp add: convert_field_def)

lemma convert_field_rest:
  "key \<noteq> ''name'' \<Longrightarrow> key \<noteq> ''payments'' \<Longrightarrow> key \<noteq> ''purchasedProducts'' \<Longrightarrow>
   date_string eng v = None \<Longrightarrow> (key = ''_id'' \<Longrightarrow> string_of v = None) \<Longrightarrow>
   convert_field eng key v = (if isArray v then js_map array_item v else convertTypes eng v)"
  by (cases "key = ''_id''") (simp_all add: convert_field_def)

lemma isArray_JArr: "isArray v \<Longrightarrow> \<exists>xs. v = JArr xs"
  by (cases v) (simp_all add: isArray_def)

lemma date_string_JArr: "date_string eng (JArr ys) = None"
  by (simp add: date_string_def)

lemma convertTypes_array_result:
  assumes "convertTypes eng v = (v', Inr (JArr ys))"
  shows "isArray v"
proof (cases v)
  case (JObj ps)
  obtain ps' r where "convertTypes_props eng [] ps = (ps', r)"
    by (cases "convertTypes_props eng [] ps")
  with JObj assms show ?thesis by (cases r) (auto split: if_splits)
qed (use assms in \<open>auto simp: isArray_def\<close>)

lemma convert_field_members_idem:
  assumes "js_map f v = (v', Inr (JArr ys))"
    and "\<And>x x' y. f x = (x', Inr y) \<Longrightarrow> f y = (y, Inr y)"
  shows "js_map f (JArr ys) = (JArr ys, Inr (JArr ys))"
proof -
  from js_map_Inr [OF assms(1)] obtain xs xs' where "array_map f xs = (xs', Inr ys)" by auto
  from array_map_idem [OF this assms(2)] show ?thesis by (simp add: js_map_array)
qed

lemma convert_field_array_idem:
  assumes "convert_field eng k v = (v', Inr (JArr ys))"
  shows "convert_field eng k (JArr ys) = (JArr ys, Inr (JArr ys))"
proof (cases "k = ''name''")
  case True
  then show ?thesis by (simp add: convert_field_name)
next
  case notname: False
  show ?thesis
  proof (cases "date_string eng v")
    case (Some t)
    with notname assms show ?thesis by (simp add: convert_field_date)
  next
    case None
    show ?thesis
    proof (cases "k = ''_id'' \<and> string_of v \<noteq> None")
      case True
      then obtain s where s: "string_of v = Some s" by auto
      with True None assms have "new_ObjectId s = (Inr (JArr ys) :: error + 'a jsval)"
        by (simp add: convert_field_id)
      from new_ObjectId_Inr [OF this] show ?thesis by simp
    next
      case False
      then have i: "k = ''_id'' \<Longrightarrow> string_of v = None" by simp
      have j: "k = ''_id'' \<Longrightarrow> string_of (JArr ys) = None" by (simp add: string_of_def)
      show ?thesis
      proof (cases "k = ''payments''")
        case True
        with assms None have "js_map (payment eng) v = (v', Inr (JArr ys))"
          by (simp add: convert_field_payments)
        from convert_field_members_idem [OF this payment_idem] True show ?thesis
          by (simp add: convert_field_payments date_string_JArr)
      next
        case np: False
        show ?thesis
        proof (cases "k = ''purchasedProducts''")
          case True
          with assms None have "js_map purchasedProduct v = (v', Inr (JArr ys))"
            by (simp add: convert_field_purchasedProducts)
          from convert_field_members_idem [OF this purchasedProduct_idem] True show ?thesis
            by (simp add: convert_field_purchasedProducts date_string_JArr)
        next
          case npp: False
          note r = convert_field_rest [OF notname np npp None i]
          note r2 = convert_field_rest [OF notname np npp date_string_JArr j]
          show ?thesis
          proof (cases "isArray v")
            case True
            with r assms have "js_map array_item v = (v', Inr (JArr ys))" by simp
            from convert_field_members_idem [OF this array_item_idem] r2 show ?thesis
              by (simp add: isArray_def)
          next
            case False
            with r assms have "convertTypes eng v = (v', Inr (JArr ys))" by simp
            from convertTypes_array_result [OF this] False show ?thesis by simp
          qed
        qed
      qed
    qed
  qed
qed

lemma convert_field_date_object:
  assumes "convert_field eng k (JDate t) = (v', Inr c)" and "k \<noteq> ''name''"
  shows "c = JObj []"
proof -
  have d: "date_string eng (JDate t) = None" by (simp add: date_string_def)
  have i: "k = ''_id'' \<Longrightarrow> string_of (JDate t) = None" by (simp add: string_of_def)
  have a: "\<not> isArray (JDate t)" by (simp add: isArray_def)
  show ?thesis
  proof (cases "k = ''payments'' \<or> k = ''purchasedProducts''")
    case True
    with assms(1) d show ?thesis
      by (auto simp: convert_field_payments convert_field_purchasedProducts
                     js_map_not_array [OF a])
  next
    case False
    then have "convert_field eng k (JDate t) = convertTypes eng (JDate t)"
      using convert_field_rest [OF assms(2) _ _ d i] by (simp add: isArray_def)
    with assms(1) show ?thesis by simp
  qed
qed

lemma convert_field_oid_object:
  assumes "convert_field eng k (JOid b) = (v', Inr c)" and "k \<noteq> ''name''"
  shows "c = JObj (oidCopy eng b)"
proof -
  have d: "date_string eng (JOid b) = None" by (simp add: date_string_def)
  have i: "k = ''_id'' \<Longrightarrow> string_of (JOid b) = None" by (simp add: string_of_def)
  have a: "\<not> isArray (JOid b)" by (simp add: isArray_def)
  show ?thesis
  proof (cases "k = ''payments'' \<or> k = ''purchasedProducts''")
    case True
    with assms(1) d show ?thesis
      by (auto simp: convert_field_payments convert_field_purchasedProducts
                     js_map_not_array [OF a])
  next
    case False
    then have "convert_field eng k (JOid b) = convertTypes eng (JOid b)"
      using convert_field_rest [OF assms(2) _ _ d i] by (simp add: isArray_def)
    with assms(1) show ?thesis by simp
  qed
qed


text \<open>Where the properties of the result come from, and that each name occurs once.\<close>

lemma props_origin:
  "convertTypes_props eng acc ps = (ps', Inr res) \<Longrightarrow> map_of res k = Some c \<Longrightarrow>
   map_of acc k = Some c \<or> (\<exists>v v'. (k, v) \<in> set ps \<and> convert_field eng k v = (v', Inr c))"
proof (induction ps arbitrary: acc ps')
  case Nil
  then show ?case by simp
next
  case (Cons p ps)
  obtain k0 v0 where p: "p = (k0, v0)" by (cases p)
  from Cons.prems(1) p obtain v0' c0 ps0 where
    f: "convert_field eng k0 v0 = (v0', Inr c0)" and
    r: "convertTypes_props eng (obj_set acc k0 c0) ps = (ps0, Inr res)"
    by (auto simp: convertTypes_props_Cons split: prod.splits sum.splits)
  from Cons.IH [OF r Cons.prems(2)] show ?case
  proof
    assume "map_of (obj_set acc k0 c0) k = Some c"
    then have "map_of acc k = Some c \<or> (k = k0 \<and> c = c0)"
      by (auto simp: map_of_obj_set split: if_splits)
    with f p show ?thesis by auto
  next
    assume "\<exists>v v'. (k, v) \<in> set ps \<and> convert_field eng k v = (v', Inr c)"
    then show ?thesis by auto
  qed
qed

lemma distinct_own_update: "distinct (map fst ps) \<Longrightarrow> distinct (map fst (own_update k v ps))"
  by (simp add: keys_own_update)

lemma props_distinct:
  "convertTypes_props eng acc ps = (ps', Inr res) \<Longrightarrow> distinct (map fst acc) \<Longrightarrow>
   distinct (map fst res)"
proof (induction ps arbitrary: acc ps')
  case Nil
  then show ?case by simp
next
  case (Cons p ps)
  obtain k0 v0 where p: "p = (k0, v0)" by (cases p)
  from Cons.prems(1) p obtain v0' c0 ps0 where
    r: "convertTypes_props eng (obj_set acc k0 c0) ps = (ps0, Inr res)"
    by (auto simp: convertTypes_props_Cons split: prod.splits sum.splits)
  have "distinct (map fst (obj_set acc k0 c0))"
    using Cons.prems(2) by (simp add: obj_set_def distinct_own_update)
  from Cons.IH [OF r this] show ?case .
qed


text \<open>The member callbacks return the object they were given, so the argument's
  array and the new array hold the same elements.\<close>

lemma payment_same: "payment eng m = (m', Inr m2) \<Longrightarrow> m' = m2"
  by (auto simp: payment_def split: prod.splits option.splits)

lemma purchasedProduct_same: "purchasedProduct m = (m', Inr m2) \<Longrightarrow> m' = m2"
  by (auto simp: purchasedProduct_def split: prod.splits option.splits)

lemma array_map_same:
  assumes "array_map f xs = (xs', Inr ys)"
    and "\<And>x x' y. f x = (x', Inr y) \<Longrightarrow> x' = y"
  shows "xs' = ys"
proof (rule nth_equalityI)
  show "length xs' = length ys" using array_map_success [OF assms(1)] by simp
next
  fix i assume "i < length xs'"
  with array_map_success [OF assms(1)] have "f (xs ! i) = (xs' ! i, Inr (ys ! i))" by simp
  then show "xs' ! i = ys ! i" by (rule assms(2))
qed

lemma js_map_same:
  assumes "js_map f v = (v', Inr c)"
    and "\<And>x x' y. f x = (x', Inr y) \<Longrightarrow> x' = y"
  shows "v' = c"
proof -
  from js_map_Inr [OF assms(1)] obtain xs xs' ys where
    v: "v = JArr xs" and c: "c = JArr ys" and a: "array_map f xs = (xs', Inr ys)" by blast
  from array_map_same [OF a assms(2)] have "xs' = ys" .
  with assms(1) v c a show ?thesis by (simp add: js_map_array)
qed

lemma props_argument_field:
  "convertTypes_props eng acc ps = (ps', Inr res) \<Longrightarrow> distinct (map fst ps) \<Longrightarrow>
   (k, v) \<in> set ps \<Longrightarrow> map_of ps' k = Some (fst (convert_field eng k v))"
proof (induction ps arbitrary: acc ps')
  case Nil
  then show ?case by simp
next
  case (Cons p ps)
  obtain k0 v0 where p: "p = (k0, v0)" by (cases p)
  from Cons.prems(1) p obtain v0' c ps0 where
    f: "convert_field eng k0 v0 = (v0', Inr c)" and
    r: "convertTypes_props eng (obj_set acc k0 c) ps = (ps0, Inr res)" and
    e: "ps' = (k0, v0') # ps0"
    by (auto simp: convertTypes_props_Cons split: prod.splits sum.splits)
  show ?case
  proof (cases "(k, v) = (k0, v0)")
    case True
    with f e show ?thesis by simp
  next
    case False
    then have m: "(k, v) \<in> set ps" using Cons.prems(3) p by auto
    then have "k \<noteq> k0" using Cons.prems(2) p by (auto simp: image_iff)
    moreover have "distinct (map fst ps)" using Cons.prems(2) by simp
    ultimately show ?thesis using Cons.IH [OF r _ m] e by simp
  qed
qed

text \<open>What the calls leave of their argument outside the member arrays.\<close>

lemma outside_convert_field:
  assumes "key \<noteq> ''payments''" and "key \<noteq> ''purchasedProducts''"
    and "\<lbrakk>key \<noteq> ''name''; date_string eng value = None;
          (if key = ''_id'' then string_of value else None) = None; \<not> isArray value\<rbrakk>
         \<Longrightarrow> outside_members (fst (convertTypes eng value)) = outside_members value"
  shows "outside_members (fst (convert_field eng key value)) = outside_members value"
proof (cases "key = ''name''")
  case True
  then show ?thesis by (simp add: convert_field_name)
next
  case notname: False
  show ?thesis
  proof (cases "date_string eng value")
    case (Some t)
    with notname show ?thesis by (simp add: convert_field_date)
  next
    case None
    show ?thesis
    proof (cases "key = ''_id'' \<and> string_of value \<noteq> None")
      case True
      then obtain s where "string_of value = Some s" by auto
      with True None show ?thesis by (simp add: convert_field_id)
    next
      case False
      then have i: "key = ''_id'' \<Longrightarrow> string_of value = None" by simp
      note r = convert_field_rest [OF notname assms(1,2) None i]
      show ?thesis
      proof (cases "isArray value")
        case True
        then obtain xs where "value = JArr xs" using isArray_JArr by blast
        with True r show ?thesis by (simp add: js_map_array array_item_fst)
      next
        case n: False
        have "(if key = ''_id'' then string_of value else None) = None" using i by simp
        from assms(3) [OF notname None this n] r n show ?thesis by simp
      qed
    qed
  qed
qed

lemma outside_convertTypes:
  "outside_members (fst (convertTypes eng v)) = outside_members v"
  "outside_members_each (fst (convertTypes_each eng xs)) = outside_members_each xs"
  "outside_members_props (fst (convertTypes_props eng acc ps)) = outside_members_props ps"
proof (induction eng v and eng xs and eng acc ps
       rule: convertTypes_convertTypes_each_convertTypes_props.induct)
  case (1 eng xs)
  then show ?case by (cases "convertTypes_each eng xs") simp
next
  case (2 eng ps)
  then show ?case by (cases "convertTypes_props eng [] ps") simp
next
  case (7 eng x xs)
  obtain x' r where c: "convertTypes eng x = (x', r)" by (cases "convertTypes eng x")
  with "7.IH"(1) have x: "outside_members x' = outside_members x" by simp
  show ?case
  proof (cases r)
    case (Inl e)
    with c x show ?thesis by simp
  next
    case (Inr y)
    obtain xs' r2 where d: "convertTypes_each eng xs = (xs', r2)"
      by (cases "convertTypes_each eng xs")
    with "7.IH"(2) [of x' r y] c Inr
    have "outside_members_each xs' = outside_members_each xs"
      by simp
    with c d x Inr show ?thesis by (cases r2) simp_all
  qed
next
  case (9 eng acc key "value" ps)
  obtain v' r where c: "convert_field eng key value = (v', r)"
    by (cases "convert_field eng key value")
  have v: "(key, if key = ''payments'' \<or> key = ''purchasedProducts'' then JNull
                 else outside_members v')
           = (key, if key = ''payments'' \<or> key = ''purchasedProducts'' then JNull
                 else outside_members value)"
  proof (cases "key = ''payments'' \<or> key = ''purchasedProducts''")
    case True
    then show ?thesis by simp
  next
    case False
    then have "outside_members (fst (convert_field eng key value)) = outside_members value"
      using "9.IH"(1) by (intro outside_convert_field) auto
    with c show ?thesis by simp
  qed
  show ?case
  proof (cases r)
    case (Inl e)
    with c v show ?thesis by (simp add: convertTypes_props_Cons)
  next
    case (Inr b)
    obtain ps' r2 where d: "convertTypes_props eng (obj_set acc key b) ps = (ps', r2)"
      by (cases "convertTypes_props eng (obj_set acc key b) ps")
    have "outside_members_props (fst (convertTypes_props eng (obj_set acc key b) ps))
          = outside_members_props ps"
      using "9.IH"(2) [of v' r b] c Inr by (simp add: convert_field_def)
    with c d v Inr show ?thesis by (simp add: convertTypes_props_Cons)
  qed
qed simp_all


section \<open>The rules of convertTypes\<close>

text \<open>
  Claim C4. In every document that \<open>convertTypes\<close> converts, the property called
  \<open>name\<close> has in the result the value it had in the document, whatever that value is.
\<close>

theorem name_field_kept:
  assumes "convertTypes_result eng (JObj ps) = Inr r"
    and "distinct (map fst ps)"
    and "(''name'', v) \<in> set ps"
  shows "\<exists>res. r = JObj res \<and> map_of res ''name'' = Some v"
proof -
  from result_obj [OF assms(1)] obtain ps' res where
    l: "convertTypes_props eng [] ps = (ps', Inr res)" and r: "r = JObj res" by blast
  from props_field [OF l assms(2) assms(3)] have "map_of res ''name'' = Some v"
    by (simp add: convert_field_def)
  with r show ?thesis by blast
qed

theorem name_field_kept_witness:
  "convertTypes_result (strict_engine :: int engine)
     (JObj [(''name'', JStr ''2023-01-01''), (''since'', JStr ''2023-01-01'')])
     = Inr (JObj [(''name'', JStr ''2023-01-01''), (''since'', JDate (Some 1672531200000))])
   \<and> distinct (map fst [(''name'', JStr ''2023-01-01'' :: int jsval), (''since'', JStr ''2023-01-01'')])
   \<and> (''name'', JStr ''2023-01-01'')
        \<in> set [(''name'', JStr ''2023-01-01'' :: int jsval), (''since'', JStr ''2023-01-01'')]
   \<and> (\<exists>res. JObj [(''name'', JStr ''2023-01-01''), (''since'', JDate (Some 1672531200000))]
               = (JObj res :: int jsval)
            \<and> map_of res ''name'' = Some (JStr ''2023-01-01''))"
proof -
  have h: "convertTypes_result (strict_engine :: int engine)
     (JObj [(''name'', JStr ''2023-01-01''), (''since'', JStr ''2023-01-01'')])
     = Inr (JObj [(''name'', JStr ''2023-01-01''), (''since'', JDate (Some 1672531200000))])"
    by code_simp
  have d: "distinct (map fst [(''name'', JStr ''2023-01-01'' :: int jsval), (''since'', JStr ''2023-01-01'')])"
    by simp
  have m: "(''name'', JStr ''2023-01-01'')
        \<in> set [(''name'', JStr ''2023-01-01'' :: int jsval), (''since'', JStr ''2023-01-01'')]"
    by simp
  from name_field_kept [OF h d m] show ?thesis using h d m by blast
qed

text \<open>
  Claim C2 does not hold of the code. The date test of line 74 stands before the \<open>_id\<close>
  branch of line 80, so a string \<open>_id\<close> that parses as a date is stored as a \<open>Date\<close>
  and never reaches the constructor of the identifier. The callbacks of \<open>payments\<close>
  and \<open>purchasedProducts\<close> pass the same property to the constructor without any date
  test.
\<close>

theorem date_like_id_becomes_date:
  "convertTypes_result (strict_engine :: int engine) (JObj [(''_id'', JStr ''2023-01-01'')])
     = Inr (JObj [(''_id'', JDate (Some 1672531200000))])
   \<and> convertTypes_result (strict_engine :: int engine)
       (JObj [(''payments'', JArr [JObj [(''_id'', JStr ''2023-01-01'')]])])
     = Inl BSONError"
  by code_simp

text \<open>
  In general, for a document that is converted: a string \<open>_id\<close> that parses as a date
  holds the timestamp in the result; one that does not is a valid identifier string and
  holds the identifier.
\<close>

lemma id_field_date_first:
  assumes "convertTypes_result eng (JObj ps) = Inr r"
    and "distinct (map fst ps)"
    and "(''_id'', JStr s) \<in> set ps"
  shows "\<exists>res. r = JObj res \<and>
           (case Date_parse eng s of
              Some t \<Rightarrow> map_of res ''_id'' = Some (JDate (Some t))
            | None \<Rightarrow> ObjectId_isValid s
                     \<and> (\<exists>b. hex_bytes s = Some b \<and> map_of res ''_id'' = Some (JOid b)))"
proof -
  from result_obj [OF assms(1)] obtain ps' res where
    l: "convertTypes_props eng [] ps = (ps', Inr res)" and r: "r = JObj res" by blast
  from props_field [OF l assms(2) assms(3)] obtain v' c where
    f: "convert_field eng ''_id'' (JStr s) = (v', Inr c)" and m: "map_of res ''_id'' = Some c"
    by auto
  have "case Date_parse eng s of
              Some t \<Rightarrow> c = JDate (Some t)
            | None \<Rightarrow> ObjectId_isValid s \<and> (\<exists>b. hex_bytes s = Some b \<and> c = JOid b)"
    using f
    by (auto simp: convert_field_def date_string_def string_of_def
             split: option.splits dest: new_ObjectId_Inr)
  with r m show ?thesis by (auto split: option.splits)
qed

text \<open>
  Claim C6, as stated, fails: the callback tests \<open>payment._id && ...\<close>, and the empty
  string is falsy. An \<open>_id\<close> that is present and a string, but empty, stays a string.
\<close>

theorem payments_counterexample:
  "convertTypes_result (strict_engine :: int engine)
     (JObj [(''payments'', JArr [JObj [(''_id'', JStr ''''), (''amount'', JNum 5)]])])
   = Inr (JObj [(''payments'', JArr [JObj [(''_id'', JStr ''''), (''amount'', JNum 5)]])])"
  by code_simp


text \<open>
  Claim C6, amended. In every document that \<open>convertTypes\<close> converts and whose
  \<open>payments\<close> is an array, the result holds under \<open>payments\<close> an array of the same
  length, and each element that is a document has the same property names in the same
  order; its \<open>_id\<close>, when a non-empty string, is the identifier of that (valid) string,
  its \<open>date\<close>, when a non-empty string, is the \<open>Date\<close> built from it; an \<open>_id\<close> or
  \<open>date\<close> that is not a non-empty string and every other property keep their values; an
  element with neither property is unchanged.
\<close>

theorem payments_members_converted:
  assumes "convertTypes_result eng (JObj ps) = Inr r"
    and "distinct (map fst ps)"
    and "(''payments'', JArr ms) \<in> set ps"
  shows "\<exists>res ms'. r = JObj res \<and> map_of res ''payments'' = Some (JArr ms') \<and>
           length ms' = length ms \<and>
           (\<forall>i<length ms. \<forall>fs. ms ! i = JObj fs \<longrightarrow>
              (\<exists>fs'. ms' ! i = JObj fs' \<and> map fst fs' = map fst fs \<and>
                 (\<forall>k. k \<noteq> ''_id'' \<and> k \<noteq> ''date'' \<longrightarrow> map_of fs' k = map_of fs k) \<and>
                 (\<forall>s. map_of fs ''_id'' = Some (JStr s) \<and> s \<noteq> [] \<longrightarrow>
                    (\<exists>b. hex_bytes s = Some b \<and> map_of fs' ''_id'' = Some (JOid b))) \<and>
                 ((\<forall>s. map_of fs ''_id'' = Some (JStr s) \<longrightarrow> s = []) \<longrightarrow>
                    map_of fs' ''_id'' = map_of fs ''_id'') \<and>
                 (\<forall>s. map_of fs ''date'' = Some (JStr s) \<and> s \<noteq> [] \<longrightarrow>
                    map_of fs' ''date'' = Some (JDate (Date_parse eng s))) \<and>
                 ((\<forall>s. map_of fs ''date'' = Some (JStr s) \<longrightarrow> s = []) \<longrightarrow>
                    map_of fs' ''date'' = map_of fs ''date'') \<and>
                 (map_of fs ''_id'' = None \<and> map_of fs ''date'' = None \<longrightarrow>
                    ms' ! i = ms ! i)))"
proof -
  from result_obj [OF assms(1)] obtain ps' res where
    l: "convertTypes_props eng [] ps = (ps', Inr res)" and r: "r = JObj res" by blast
  from props_field [OF l assms(2) assms(3)] obtain v' c where
    f: "convert_field eng ''payments'' (JArr ms) = (v', Inr c)" and
    m: "map_of res ''payments'' = Some c"
    by auto
  from f obtain xs' ms' where
    a: "array_map (payment eng) ms = (xs', Inr ms')" and c: "c = JArr ms'"
    by (cases "array_map (payment eng) ms"; cases "snd (array_map (payment eng) ms)")
       (auto simp: convert_field_def date_string_def js_map_array)
  note s = array_map_success [OF a]
  have "\<exists>fs'. ms' ! i = JObj fs' \<and> map fst fs' = map fst fs \<and>
                 (\<forall>k. k \<noteq> ''_id'' \<and> k \<noteq> ''date'' \<longrightarrow> map_of fs' k = map_of fs k) \<and>
                 (\<forall>s. map_of fs ''_id'' = Some (JStr s) \<and> s \<noteq> [] \<longrightarrow>
                    (\<exists>b. hex_bytes s = Some b \<and> map_of fs' ''_id'' = Some (JOid b))) \<and>
                 ((\<forall>s. map_of fs ''_id'' = Some (JStr s) \<longrightarrow> s = []) \<longrightarrow>
                    map_of fs' ''_id'' = map_of fs ''_id'') \<and>
                 (\<forall>s. map_of fs ''date'' = Some (JStr s) \<and> s \<noteq> [] \<longrightarrow>
                    map_of fs' ''date'' = Some (JDate (Date_parse eng s))) \<and>
                 ((\<forall>s. map_of fs ''date'' = Some (JStr s) \<longrightarrow> s = []) \<longrightarrow>
                    map_of fs' ''date'' = map_of fs ''date'') \<and>
                 (map_of fs ''_id'' = None \<and> map_of fs ''date'' = None \<longrightarrow>
                    ms' ! i = ms ! i)"
    if i: "i < length ms" and d: "ms ! i = JObj fs" for i fs
  proof -
    from s i have "payment eng (ms ! i) = (xs' ! i, Inr (ms' ! i))" by blast
    then have "payment eng (JObj fs) = (xs' ! i, Inr (ms' ! i))" by (simp only: d)
    from payment_obj [OF this] show ?thesis unfolding d by blast
  qed
  then have all: "\<forall>i<length ms. \<forall>fs. ms ! i = JObj fs \<longrightarrow>
              (\<exists>fs'. ms' ! i = JObj fs' \<and> map fst fs' = map fst fs \<and>
                 (\<forall>k. k \<noteq> ''_id'' \<and> k \<noteq> ''date'' \<longrightarrow> map_of fs' k = map_of fs k) \<and>
                 (\<forall>s. map_of fs ''_id'' = Some (JStr s) \<and> s \<noteq> [] \<longrightarrow>
                    (\<exists>b. hex_bytes s = Some b \<and> map_of fs' ''_id'' = Some (JOid b))) \<and>
                 ((\<forall>s. map_of fs ''_id'' = Some (JStr s) \<longrightarrow> s = []) \<longrightarrow>
                    map_of fs' ''_id'' = map_of fs ''_id'') \<and>
                 (\<forall>s. map_of fs ''date'' = Some (JStr s) \<and> s \<noteq> [] \<longrightarrow>
                    map_of fs' ''date'' = Some (JDate (Date_parse eng s))) \<and>
                 ((\<forall>s. map_of fs ''date'' = Some (JStr s) \<longrightarrow> s = []) \<longrightarrow>
                    map_of fs' ''date'' = map_of fs ''date'') \<and>
                 (map_of fs ''_id'' = None \<and> map_of fs ''date'' = None \<longrightarrow>
                    ms' ! i = ms ! i))"
    by (intro allI impI)
  have len: "length ms' = length ms" using s by simp
  have mm: "map_of res ''payments'' = Some (JArr ms')" using m c by simp
  show ?thesis
    by (rule exI [of _ res], rule exI [of _ ms']) (intro conjI r mm len all)
qed

theorem payments_members_converted_witness:
  "convertTypes_result (strict_engine :: int engine)
     (JObj [(''payments'',
             JArr [JObj [(''_id'', JStr ''507f1f77bcf86cd799439011''),
                         (''date'', JStr ''2023-01-01''), (''note'', JStr ''2023-01-01'')],
                   JObj [(''amount'', JNum (7::int))]])])
     = Inr (JObj [(''payments'',
             JArr [JObj [(''_id'', JOid [80, 127, 31, 119, 188, 248, 108, 215, 153, 67, 144, 17]),
                         (''date'', JDate (Some 1672531200000)), (''note'', JStr ''2023-01-01'')],
                   JObj [(''amount'', JNum (7::int))]])])
   \<and> distinct (map fst [(''payments'',
             JArr [JObj [(''_id'', JStr ''507f1f77bcf86cd799439011''),
                         (''date'', JStr ''2023-01-01''), (''note'', JStr ''2023-01-01'')],
                   JObj [(''amount'', JNum (7::int))]])])
   \<and> (''payments'',
             JArr [JObj [(''_id'', JStr ''507f1f77bcf86cd799439011''),
                         (''date'', JStr ''2023-01-01''), (''note'', JStr ''2023-01-01'')],
                   JObj [(''amount'', JNum (7::int))]])
       \<in> set [(''payments'',
             JArr [JObj [(''_id'', JStr ''507f1f77bcf86cd799439011''),
                         (''date'', JStr ''2023-01-01''), (''note'', JStr ''2023-01-01'')],
                   JObj [(''amount'', JNum (7::int))]])]
   \<and> (\<exists>res ms'. JObj [(''payments'',
             JArr [JObj [(''_id'', JOid [80, 127, 31, 119, 188, 248, 108, 215, 153, 67, 144, 17]),
                         (''date'', JDate (Some 1672531200000)), (''note'', JStr ''2023-01-01'')],
                   JObj [(''amount'', JNum (7::int))]])] = JObj res
        \<and> map_of res ''payments'' = Some (JArr ms')
        \<and> length ms' = length [JObj [(''_id'', JStr ''507f1f77bcf86cd799439011''),
                         (''date'', JStr ''2023-01-01''), (''note'', JStr ''2023-01-01'')],
                   JObj [(''amount'', JNum (7::int))]]
        \<and> (\<forall>i<length [JObj [(''_id'', JStr ''507f1f77bcf86cd799439011''),
                         (''date'', JStr ''2023-01-01''), (''note'', JStr ''2023-01-01'')],
                   JObj [(''amount'', JNum (7::int))]]. \<forall>fs. [JObj [(''_id'', JStr ''507f1f77bcf86cd799439011''),
                         (''date'', JStr ''2023-01-01''), (''note'', JStr ''2023-01-01'')],
                   JObj [(''amount'', JNum (7::int))]] ! i = JObj fs \<longrightarrow>
              (\<exists>fs'. ms' ! i = JObj fs' \<and> map fst fs' = map fst fs \<and>
                 (\<forall>k. k \<noteq> ''_id'' \<and> k \<noteq> ''date'' \<longrightarrow> map_of fs' k = map_of fs k) \<and>
                 (\<forall>s. map_of fs ''_id'' = Some (JStr s) \<and> s \<noteq> [] \<longrightarrow>
                    (\<exists>b. hex_bytes s = Some b \<and> map_of fs' ''_id'' = Some (JOid b))) \<and>
                 ((\<forall>s. map_of fs ''_id'' = Some (JStr s) \<longrightarrow> s = []) \<longrightarrow>
                    map_of fs' ''_id'' = map_of fs ''_id'') \<and>
                 (\<forall>s. map_of fs ''date'' = Some (JStr s) \<and> s \<noteq> [] \<longrightarrow>
                    map_of fs' ''date'' = Some (JDate (Date_parse (strict_engine :: int engine) s))) \<and>
                 ((\<forall>s. map_of fs ''date'' = Some (JStr s) \<longrightarrow> s = []) \<longrightarrow>
                    map_of fs' ''date'' = map_of fs ''date'') \<and>
                 (map_of fs ''_id'' = None \<and> map_of fs ''date'' = None \<longrightarrow>
                    ms' ! i = [JObj [(''_id'', JStr ''507f1f77bcf86cd799439011''),
                         (''date'', JStr ''2023-01-01''), (''note'', JStr ''2023-01-01'')],
                   JObj [(''amount'', JNum (7::int))]] ! i))))"
proof -
  have h: "convertTypes_result (strict_engine :: int engine)
     (JObj [(''payments'',
             JArr [JObj [(''_id'', JStr ''507f1f77bcf86cd799439011''),
                         (''date'', JStr ''2023-01-01''), (''note'', JStr ''2023-01-01'')],
                   JObj [(''amount'', JNum (7::int))]])])
     = Inr (JObj [(''payments'',
             JArr [JObj [(''_id'', JOid [80, 127, 31, 119, 188, 248, 108, 215, 153, 67, 144, 17]),
                         (''date'', JDate (Some 1672531200000)), (''note'', JStr ''2023-01-01'')],
                   JObj [(''amount'', JNum (7::int))]])])"
    by code_simp
  have d: "distinct (map fst [(''payments'',
             JArr [JObj [(''_id'', JStr ''507f1f77bcf86cd799439011''),
                         (''date'', JStr ''2023-01-01''), (''note'', JStr ''2023-01-01'')],
                   JObj [(''amount'', JNum (7::int))]])])"
    by simp
  have m: "(''payments'',
             JArr [JObj [(''_id'', JStr ''507f1f77bcf86cd799439011''),
                         (''date'', JStr ''2023-01-01''), (''note'', JStr ''2023-01-01'')],
                   JObj [(''amount'', JNum (7::int))]])
       \<in> set [(''payments'',
             JArr [JObj [(''_id'', JStr ''507f1f77bcf86cd799439011''),
                         (''date'', JStr ''2023-01-01''), (''note'', JStr ''2023-01-01'')],
                   JObj [(''amount'', JNum (7::int))]])]"
    by simp
  show ?thesis by (intro conjI h d m payments_members_converted [OF h d m])
qed


text \<open>
  Claim C7, as stated, fails: an array that \<open>convertTypes\<close> is called on (lines 59 to
  61) is mapped with \<open>convertTypes\<close> itself, which leaves a string element as it is,
  identifier-shaped or not, and converts the properties of a document element.
\<close>

theorem top_level_array_counterexample:
  "convertTypes_result (strict_engine :: int engine)
     (JArr [JStr ''507f1f77bcf86cd799439011'',
            JObj [(''_id'', JStr ''507f1f77bcf86cd799439011'')]])
   = Inr (JArr [JStr ''507f1f77bcf86cd799439011'',
                JObj [(''_id'', JOid [80, 127, 31, 119, 188, 248, 108, 215, 153, 67, 144, 17])]])"
  by code_simp


text \<open>
  Claim C7, amended. In every document that \<open>convertTypes\<close> converts, an array held by
  a property other than \<open>name\<close>, \<open>payments\<close>, \<open>purchasedProducts\<close> and \<open>__proto__\<close>
  becomes an array of the same length in which, position by position, a string that
  satisfies the identifier format is the identifier built from it and every other
  element, documents included, is the element itself.
\<close>

theorem field_array_items:
  assumes "convertTypes_result eng (JObj ps) = Inr r"
    and "distinct (map fst ps)"
    and "(k, JArr xs) \<in> set ps"
    and "k \<noteq> ''name''" and "k \<noteq> ''payments''" and "k \<noteq> ''purchasedProducts''"
    and "k \<noteq> ''__proto__''"
  shows "\<exists>res ys. r = JObj res \<and> map_of res k = Some (JArr ys) \<and> length ys = length xs \<and>
           (\<forall>i<length xs.
              case xs ! i of
                JStr s \<Rightarrow> if ObjectId_isValid s then new_ObjectId s = Inr (ys ! i)
                          else ys ! i = xs ! i
              | _ \<Rightarrow> ys ! i = xs ! i)"
proof -
  from result_obj [OF assms(1)] obtain ps' res where
    l: "convertTypes_props eng [] ps = (ps', Inr res)" and r: "r = JObj res" by blast
  from props_field [OF l assms(2) assms(3) assms(7)] obtain v' c where
    f: "convert_field eng k (JArr xs) = (v', Inr c)" and m: "map_of res k = Some c"
    by auto
  from array_map_item [of xs] obtain ys where
    a: "array_map array_item xs = (xs, Inr ys)" and n: "length ys = length xs" and
    i: "\<forall>i<length xs.
              case xs ! i of
                JStr s \<Rightarrow> if ObjectId_isValid s then new_ObjectId s = Inr (ys ! i)
                          else ys ! i = xs ! i
              | _ \<Rightarrow> ys ! i = xs ! i" by blast
  have "c = JArr ys" using f a assms(4-6)
    by (cases "k = ''_id''")
       (simp_all add: convert_field_def date_string_def string_of_def isArray_def js_map_array)
  with r m n i show ?thesis by blast
qed

theorem field_array_items_witness:
  "convertTypes_result (strict_engine :: int engine)
     (JObj [(''tags'', JArr [JStr ''xyz'', JStr ''507f1f77bcf86cd799439011'',
                             JObj [(''_id'', JStr ''507f1f77bcf86cd799439011'')]])])
     = Inr (JObj [(''tags'', JArr [JStr ''xyz'',
                    JOid [80, 127, 31, 119, 188, 248, 108, 215, 153, 67, 144, 17],
                    JObj [(''_id'', JStr ''507f1f77bcf86cd799439011'')]])])
   \<and> distinct (map fst [(''tags'', JArr [JStr ''xyz'', JStr ''507f1f77bcf86cd799439011'',
                             JObj [(''_id'', JStr ''507f1f77bcf86cd799439011'' :: int jsval)]])])
   \<and> (''tags'', JArr [JStr ''xyz'', JStr ''507f1f77bcf86cd799439011'',
                             JObj [(''_id'', JStr ''507f1f77bcf86cd799439011'')]])
       \<in> set [(''tags'', JArr [JStr ''xyz'', JStr ''507f1f77bcf86cd799439011'',
                             JObj [(''_id'', JStr ''507f1f77bcf86cd799439011'' :: int jsval)]])]
   \<and> ''tags'' \<noteq> ''name'' \<and> ''tags'' \<noteq> ''payments'' \<and> ''tags'' \<noteq> ''purchasedProducts''
   \<and> ''tags'' \<noteq> ''__proto__''
   \<and> (\<exists>res ys. JObj [(''tags'', JArr [JStr ''xyz'',
                    JOid [80, 127, 31, 119, 188, 248, 108, 215, 153, 67, 144, 17],
                    JObj [(''_id'', JStr ''507f1f77bcf86cd799439011'')]])] = (JObj res :: int jsval)
         \<and> map_of res ''tags'' = Some (JArr ys) \<and> length ys = 3
         \<and> ys ! 0 = JStr ''xyz''
         \<and> new_ObjectId ''507f1f77bcf86cd799439011'' = Inr (ys ! 1)
         \<and> ys ! 2 = JObj [(''_id'', JStr ''507f1f77bcf86cd799439011'')])"
proof -
  have h: "convertTypes_result (strict_engine :: int engine)
     (JObj [(''tags'', JArr [JStr ''xyz'', JStr ''507f1f77bcf86cd799439011'',
                             JObj [(''_id'', JStr ''507f1f77bcf86cd799439011'')]])])
     = Inr (JObj [(''tags'', JArr [JStr ''xyz'',
                    JOid [80, 127, 31, 119, 188, 248, 108, 215, 153, 67, 144, 17],
                    JObj [(''_id'', JStr ''507f1f77bcf86cd799439011'')]])])"
    by code_simp
  have d: "distinct (map fst [(''tags'', JArr [JStr ''xyz'', JStr ''507f1f77bcf86cd799439011'',
                             JObj [(''_id'', JStr ''507f1f77bcf86cd799439011'' :: int jsval)]])])"
    by simp
  have m: "(''tags'', JArr [JStr ''xyz'', JStr ''507f1f77bcf86cd799439011'',
                             JObj [(''_id'', JStr ''507f1f77bcf86cd799439011'')]])
       \<in> set [(''tags'', JArr [JStr ''xyz'', JStr ''507f1f77bcf86cd799439011'',
                             JObj [(''_id'', JStr ''507f1f77bcf86cd799439011'' :: int jsval)]])]"
    by simp
  have n1: "''tags'' \<noteq> ''name''" and n2: "''tags'' \<noteq> ''payments''"
    and n3: "''tags'' \<noteq> ''purchasedProducts''" and n4: "''tags'' \<noteq> ''__proto__''"
    by simp_all
  have v1: "\<not> ObjectId_isValid ''xyz''" by code_simp
  have v2: "ObjectId_isValid ''507f1f77bcf86cd799439011''" by code_simp
  from field_array_items [OF h d m n1 n2 n3 n4] obtain res ys where
    r: "JObj [(''tags'', JArr [JStr ''xyz'',
                    JOid [80, 127, 31, 119, 188, 248, 108, 215, 153, 67, 144, 17],
                    JObj [(''_id'', JStr ''507f1f77bcf86cd799439011'')]])] = (JObj res :: int jsval)"
    and t: "map_of res ''tags'' = Some (JArr ys)"
    and l: "length ys = length [JStr ''xyz'', JStr ''507f1f77bcf86cd799439011'',
                             JObj [(''_id'', JStr ''507f1f77bcf86cd799439011'' :: int jsval)]]"
    and a: "\<forall>i<length [JStr ''xyz'', JStr ''507f1f77bcf86cd799439011'',
                             JObj [(''_id'', JStr ''507f1f77bcf86cd799439011'' :: int jsval)]].
              case [JStr ''xyz'', JStr ''507f1f77bcf86cd799439011'',
                             JObj [(''_id'', JStr ''507f1f77bcf86cd799439011'' :: int jsval)]] ! i of
                JStr s \<Rightarrow> if ObjectId_isValid s then new_ObjectId s = Inr (ys ! i)
                          else ys ! i = [JStr ''xyz'', JStr ''507f1f77bcf86cd799439011'',
                             JObj [(''_id'', JStr ''507f1f77bcf86cd799439011'' :: int jsval)]] ! i
              | _ \<Rightarrow> ys ! i = [JStr ''xyz'', JStr ''507f1f77bcf86cd799439011'',
                             JObj [(''_id'', JStr ''507f1f77bcf86cd799439011'' :: int jsval)]] ! i"
    by blast
  have l3: "length ys = 3" using l by simp
  have a0: "ys ! 0 = JStr ''xyz''" using a [rule_format, of 0] v1 by simp
  have a1: "new_ObjectId ''507f1f77bcf86cd799439011'' = Inr (ys ! 1)"
    using a [rule_format, of 1] v2 by simp
  have a2: "ys ! 2 = JObj [(''_id'', JStr ''507f1f77bcf86cd799439011'')]"
    using a [rule_format, of 2] by simp
  have c: "\<exists>res ys. JObj [(''tags'', JArr [JStr ''xyz'',
                    JOid [80, 127, 31, 119, 188, 248, 108, 215, 153, 67, 144, 17],
                    JObj [(''_id'', JStr ''507f1f77bcf86cd799439011'')]])] = (JObj res :: int jsval)
         \<and> map_of res ''tags'' = Some (JArr ys) \<and> length ys = 3
         \<and> ys ! 0 = JStr ''xyz''
         \<and> new_ObjectId ''507f1f77bcf86cd799439011'' = Inr (ys ! 1)
         \<and> ys ! 2 = JObj [(''_id'', JStr ''507f1f77bcf86cd799439011'')]"
    using r t l3 a0 a1 a2 by blast
  show ?thesis by (intro conjI h d m n1 n2 n3 n4 c)
qed






text \<open>
  Claim C10. A document in which \<open>payments\<close> or \<open>purchasedProducts\<close> holds a value
  that is neither an array nor a string that parses as a date is not converted:
  \<open>convertTypes\<close> throws.
\<close>

theorem member_arrays_required:
  assumes "(k, v) \<in> set ps"
    and "k = ''payments'' \<or> k = ''purchasedProducts''"
    and "\<not> isArray v"
    and "date_string eng v = None"
  shows "\<exists>e. convertTypes_result eng (JObj ps) = Inl e"
proof -
  have "snd (convert_field eng k v) = Inl TypeError"
    using assms(2-4) by (auto simp: convert_field_def js_map_not_array)
  from props_error [OF assms(1) this] obtain e where
    "snd (convertTypes_props eng [] ps) = Inl e" by blast
  then show ?thesis by (rule result_obj_error)
qed

theorem member_arrays_required_witness:
  "(''payments'', JNum 3) \<in> set [(''total'', JNum (7::int)), (''payments'', JNum 3)]
   \<and> \<not> isArray (JNum (3::int))
   \<and> date_string (strict_engine :: int engine) (JNum 3) = None
   \<and> (\<exists>e. convertTypes_result (strict_engine :: int engine)
              (JObj [(''total'', JNum 7), (''payments'', JNum 3)]) = Inl e)"
proof -
  have m: "(''payments'', JNum 3) \<in> set [(''total'', JNum (7::int)), (''payments'', JNum 3)]"
    by simp
  have k: "''payments'' = ''payments'' \<or> ''payments'' = ''purchasedProducts''" by simp
  have a: "\<not> isArray (JNum (3::int))" by (simp add: isArray_def)
  have d: "date_string (strict_engine :: int engine) (JNum 3) = None"
    by (simp add: date_string_def)
  from member_arrays_required [OF m k a d] show ?thesis using m a d by blast
qed

section \<open>The argument after the call, and a second call\<close>

text \<open>
  Claim C3, as stated, fails: the callbacks of lines 85 to 112 assign to the element they
  are given. After the call the argument's \<open>payments\<close> element holds an identifier where
  it held a string.
\<close>

theorem argument_mutated_counterexample:
  "convertTypes_argument (strict_engine :: int engine)
     (JObj [(''payments'', JArr [JObj [(''_id'', JStr ''507f1f77bcf86cd799439011'')]])])
   = JObj [(''payments'',
            JArr [JObj [(''_id'', JOid [80, 127, 31, 119, 188, 248, 108, 215, 153, 67, 144, 17])]])]"
  by code_simp


text \<open>
  Claim C3, amended. \<open>convertTypes\<close> leaves its argument unchanged everywhere outside
  the values of \<open>payments\<close> and \<open>purchasedProducts\<close> properties, whether it returns or
  throws; and when it converts a document, the argument's \<open>payments\<close> or
  \<open>purchasedProducts\<close> array holds afterwards the converted elements that the result
  holds.
\<close>

theorem argument_kept_outside_members:
  "outside_members (convertTypes_argument eng v) = outside_members v
   \<and> (convertTypes_result eng (JObj ps) = Inr r \<and> distinct (map fst ps)
        \<and> (k = ''payments'' \<or> k = ''purchasedProducts'') \<and> (k, JArr ms) \<in> set ps
      \<longrightarrow> (\<exists>ps' res ms'. convertTypes_argument eng (JObj ps) = JObj ps' \<and> r = JObj res
             \<and> map_of ps' k = Some (JArr ms') \<and> map_of res k = Some (JArr ms')))"
proof (intro conjI impI)
  show "outside_members (convertTypes_argument eng v) = outside_members v"
    by (simp add: convertTypes_argument_def outside_convertTypes(1))
next
  assume a: "convertTypes_result eng (JObj ps) = Inr r \<and> distinct (map fst ps)
        \<and> (k = ''payments'' \<or> k = ''purchasedProducts'') \<and> (k, JArr ms) \<in> set ps"
  then obtain ps' res where
    h: "''hasOwnProperty'' \<notin> fst ` set ps" and
    l: "convertTypes_props eng [] ps = (ps', Inr res)" and r: "r = JObj res"
    using result_obj by blast
  have arg: "convertTypes_argument eng (JObj ps) = JObj ps'"
    using h l by (simp add: convertTypes_argument_def)
  have np: "k \<noteq> ''__proto__''" using a by auto
  from a props_field [OF l _ _ np, of "JArr ms"] obtain v' c where
    f: "convert_field eng k (JArr ms) = (v', Inr c)" and m: "map_of res k = Some c"
    by auto
  from a props_argument_field [OF l, of k "JArr ms"] f
  have m': "map_of ps' k = Some v'" by simp
  have "js_map (payment eng) (JArr ms) = (v', Inr c) \<or> js_map purchasedProduct (JArr ms) = (v', Inr c)"
    using a f by (auto simp: convert_field_payments convert_field_purchasedProducts date_string_JArr)
  then have same: "v' = c"
  proof
    assume "js_map (payment eng) (JArr ms) = (v', Inr c)"
    then show ?thesis by (rule js_map_same) (rule payment_same)
  next
    assume "js_map purchasedProduct (JArr ms) = (v', Inr c)"
    then show ?thesis by (rule js_map_same) (rule purchasedProduct_same)
  qed
  from f have "\<exists>ms'. c = JArr ms'"
    using a js_map_Inr [of "payment eng" "JArr ms" v' c] js_map_Inr [of purchasedProduct "JArr ms" v' c]
    by (auto simp: convert_field_payments convert_field_purchasedProducts date_string_JArr)
  then obtain ms' where "c = JArr ms'" by blast
  with arg r m m' same
  show "\<exists>ps' res ms'. convertTypes_argument eng (JObj ps) = JObj ps' \<and> r = JObj res
             \<and> map_of ps' k = Some (JArr ms') \<and> map_of res k = Some (JArr ms')"
    by blast
qed

theorem argument_kept_outside_members_witness:
  "outside_members (convertTypes_argument (strict_engine :: int engine)
       (JObj [(''total'', JNum 5), (''payments'', JArr [JObj [(''_id'', JStr ''507f1f77bcf86cd799439011'' :: int jsval)]])]))
     = JObj [(''total'', JNum 5), (''payments'', JNull)]
   \<and> outside_members (JObj [(''total'', JNum 5), (''payments'', JArr [JObj [(''_id'', JStr ''507f1f77bcf86cd799439011'' :: int jsval)]])]) = JObj [(''total'', JNum 5), (''payments'', JNull)]
   \<and> convertTypes_result (strict_engine :: int engine) (JObj [(''total'', JNum 5), (''payments'', JArr [JObj [(''_id'', JStr ''507f1f77bcf86cd799439011'' :: int jsval)]])])
       = Inr (JObj [(''total'', JNum 5), (''payments'', JArr [JObj [(''_id'', JOid [80, 127, 31, 119, 188, 248, 108, 215, 153, 67, 144, 17] :: int jsval)]])])
   \<and> distinct (map fst [(''total'', JNum 5), (''payments'', JArr [JObj [(''_id'', JStr ''507f1f77bcf86cd799439011'' :: int jsval)]])])
   \<and> (''payments'', JArr [JObj [(''_id'', JStr ''507f1f77bcf86cd799439011'' :: int jsval)]]) \<in> set [(''total'', JNum 5), (''payments'', JArr [JObj [(''_id'', JStr ''507f1f77bcf86cd799439011'' :: int jsval)]])]
   \<and> (\<exists>ps' res ms'. convertTypes_argument (strict_engine :: int engine) (JObj [(''total'', JNum 5), (''payments'', JArr [JObj [(''_id'', JStr ''507f1f77bcf86cd799439011'' :: int jsval)]])]) = JObj ps'
         \<and> JObj [(''total'', JNum 5), (''payments'', JArr [JObj [(''_id'', JOid [80, 127, 31, 119, 188, 248, 108, 215, 153, 67, 144, 17] :: int jsval)]])] = JObj res
         \<and> map_of ps' ''payments'' = Some (JArr ms') \<and> map_of res ''payments'' = Some (JArr ms'))"
proof -
  have o: "outside_members (JObj [(''total'', JNum 5), (''payments'', JArr [JObj [(''_id'', JStr ''507f1f77bcf86cd799439011'' :: int jsval)]])]) = JObj [(''total'', JNum 5), (''payments'', JNull)]"
    by simp
  have h: "convertTypes_result (strict_engine :: int engine) (JObj [(''total'', JNum 5), (''payments'', JArr [JObj [(''_id'', JStr ''507f1f77bcf86cd799439011'' :: int jsval)]])])
       = Inr (JObj [(''total'', JNum 5), (''payments'', JArr [JObj [(''_id'', JOid [80, 127, 31, 119, 188, 248, 108, 215, 153, 67, 144, 17] :: int jsval)]])])"
    by code_simp
  have d: "distinct (map fst [(''total'', JNum 5), (''payments'', JArr [JObj [(''_id'', JStr ''507f1f77bcf86cd799439011'' :: int jsval)]])])"
    by simp
  have m: "(''payments'', JArr [JObj [(''_id'', JStr ''507f1f77bcf86cd799439011'' :: int jsval)]]) \<in> set [(''total'', JNum 5), (''payments'', JArr [JObj [(''_id'', JStr ''507f1f77bcf86cd799439011'' :: int jsval)]])]"
    by simp
  note t = argument_kept_outside_members [where eng = "(strict_engine :: int engine)" and ps = "[(''total'', JNum 5), (''payments'', JArr [JObj [(''_id'', JStr ''507f1f77bcf86cd799439011'' :: int jsval)]])]"
             and v = "JObj [(''total'', JNum 5), (''payments'', JArr [JObj [(''_id'', JStr ''507f1f77bcf86cd799439011'' :: int jsval)]])]" and k = "''payments''" and ms = "[JObj [(''_id'', JStr ''507f1f77bcf86cd799439011'' :: int jsval)]]"
             and r = "JObj [(''total'', JNum 5), (''payments'', JArr [JObj [(''_id'', JOid [80, 127, 31, 119, 188, 248, 108, 215, 153, 67, 144, 17] :: int jsval)]])]"]
  have a: "outside_members (convertTypes_argument (strict_engine :: int engine)
       (JObj [(''total'', JNum 5), (''payments'', JArr [JObj [(''_id'', JStr ''507f1f77bcf86cd799439011'' :: int jsval)]])]))
     = JObj [(''total'', JNum 5), (''payments'', JNull)]"
    using t [THEN conjunct1] o by simp
  have c: "\<exists>ps' res ms'. convertTypes_argument (strict_engine :: int engine) (JObj [(''total'', JNum 5), (''payments'', JArr [JObj [(''_id'', JStr ''507f1f77bcf86cd799439011'' :: int jsval)]])]) = JObj ps'
         \<and> JObj [(''total'', JNum 5), (''payments'', JArr [JObj [(''_id'', JOid [80, 127, 31, 119, 188, 248, 108, 215, 153, 67, 144, 17] :: int jsval)]])] = JObj res
         \<and> map_of ps' ''payments'' = Some (JArr ms') \<and> map_of res ''payments'' = Some (JArr ms')"
    using t [THEN conjunct2] h d m by blast
  show ?thesis by (intro conjI a o h d m c)
qed

text \<open>
  Claim C5, as stated, fails: a \<open>Date\<close> is an object without own enumerable
  properties, so a second call copies it as an empty document.
\<close>

theorem second_pass_counterexample:
  "convertTypes_result (strict_engine :: int engine)
     (JObj [(''createdAt'', JStr ''2023-01-01T00:00:00Z'')])
     = Inr (JObj [(''createdAt'', JDate (Some 1672531200000))])
   \<and> convertTypes_result (strict_engine :: int engine)
     (JObj [(''createdAt'', JDate (Some 1672531200000))])
     = Inr (JObj [(''createdAt'', JObj [])])"
  by code_simp


text \<open>
  Claim C5, amended. When \<open>convertTypes\<close> converts a document and then converts its own
  result, every array-valued property of the first result, with the identifiers and
  timestamps inside it, is the same in the second; a timestamp held directly by a
  property other than \<open>name\<close> is an empty document in the second, and an identifier
  held directly is a plain document. The document has no property called \<open>__proto__\<close>:
  assigning to it changes the prototype of the first result, which the values here do
  not record and a second call would see.
\<close>

theorem second_pass_keeps_arrays:
  assumes "convertTypes_result eng (JObj ps) = Inr (JObj res)"
    and "convertTypes_result eng (JObj res) = Inr (JObj res2)"
    and "proto_free (JObj ps)"
  shows "(\<forall>k ys. map_of res k = Some (JArr ys) \<longrightarrow> map_of res2 k = Some (JArr ys))
       \<and> (\<forall>k t. k \<noteq> ''name'' \<and> map_of res k = Some (JDate t)
                  \<longrightarrow> map_of res2 k = Some (JObj []))
       \<and> (\<forall>k b. k \<noteq> ''name'' \<and> map_of res k = Some (JOid b)
                  \<longrightarrow> map_of res2 k = Some (JObj (oidCopy eng b)))"
proof -
  from result_obj [OF assms(1)] obtain ps' where
    l: "convertTypes_props eng [] ps = (ps', Inr res)" by blast
  from result_obj [OF assms(2)] obtain res' where
    l2: "convertTypes_props eng [] res = (res', Inr res2)" by blast
  have dr: "distinct (map fst res)" using props_distinct [OF l] by simp
  have np: "map_of res ''__proto__'' = None" using props_untouched_key [OF l, of "''__proto__''"] by simp
  have second: "\<exists>w c2. convert_field eng k c = (w, Inr c2) \<and> map_of res2 k = Some c2"
    if "map_of res k = Some c" for k c
  proof -
    from that have "(k, c) \<in> set res" by (rule map_of_SomeD)
    moreover from that np have "k \<noteq> ''__proto__''" by auto
    ultimately show ?thesis using props_field [OF l2 dr] by blast
  qed
  have arrays: "map_of res2 k = Some (JArr ys)" if m: "map_of res k = Some (JArr ys)" for k ys
  proof -
    from props_origin [OF l m] obtain v v' where
      "convert_field eng k v = (v', Inr (JArr ys))" by auto
    from convert_field_array_idem [OF this] second [OF m] show ?thesis by auto
  qed
  have dates: "map_of res2 k = Some (JObj [])"
    if n: "k \<noteq> ''name''" and m: "map_of res k = Some (JDate t)" for k t
  proof -
    from second [OF m] obtain w c2 where
      c: "convert_field eng k (JDate t) = (w, Inr c2)" and r: "map_of res2 k = Some c2" by blast
    from convert_field_date_object [OF c n] r show ?thesis by simp
  qed
  have oids: "map_of res2 k = Some (JObj (oidCopy eng b))"
    if n: "k \<noteq> ''name''" and m: "map_of res k = Some (JOid b)" for k b
  proof -
    from second [OF m] obtain w c2 where
      c: "convert_field eng k (JOid b) = (w, Inr c2)" and r: "map_of res2 k = Some c2" by blast
    from convert_field_oid_object [OF c n] r show ?thesis by simp
  qed
  from arrays dates oids show ?thesis by blast
qed

theorem second_pass_keeps_arrays_witness:
  "convertTypes_result (strict_engine :: int engine)
     (JObj [(''createdAt'', JStr ''2023-01-01T00:00:00Z''),
            (''owner'', JStr ''507f1f77bcf86cd799439011''),
            (''tags'', JArr [JStr ''507f1f77bcf86cd799439011'']),
            (''payments'', JArr [JObj [(''_id'', JStr ''507f1f77bcf86cd799439011''),
                                       (''date'', JStr ''2023-01-01'')]])])
     = Inr (JObj [(''createdAt'', JDate (Some 1672531200000)),
            (''owner'', JStr ''507f1f77bcf86cd799439011''),
            (''tags'', JArr [JOid [80, 127, 31, 119, 188, 248, 108, 215, 153, 67, 144, 17]]),
            (''payments'', JArr [JObj [(''_id'', JOid [80, 127, 31, 119, 188, 248, 108, 215, 153, 67, 144, 17]),
                                       (''date'', JDate (Some 1672531200000))]])])
   \<and> convertTypes_result (strict_engine :: int engine)
     (JObj [(''createdAt'', JDate (Some 1672531200000)),
            (''owner'', JStr ''507f1f77bcf86cd799439011''),
            (''tags'', JArr [JOid [80, 127, 31, 119, 188, 248, 108, 215, 153, 67, 144, 17]]),
            (''payments'', JArr [JObj [(''_id'', JOid [80, 127, 31, 119, 188, 248, 108, 215, 153, 67, 144, 17]),
                                       (''date'', JDate (Some 1672531200000))]])])
     = Inr (JObj [(''createdAt'', JObj []),
            (''owner'', JStr ''507f1f77bcf86cd799439011''),
            (''tags'', JArr [JOid [80, 127, 31, 119, 188, 248, 108, 215, 153, 67, 144, 17]]),
            (''payments'', JArr [JObj [(''_id'', JOid [80, 127, 31, 119, 188, 248, 108, 215, 153, 67, 144, 17]),
                                       (''date'', JDate (Some 1672531200000))]])])
   \<and> proto_free (JObj [(''createdAt'', JStr ''2023-01-01T00:00:00Z''),
            (''owner'', JStr ''507f1f77bcf86cd799439011''),
            (''tags'', JArr [JStr ''507f1f77bcf86cd799439011'']),
            (''payments'', JArr [JObj [(''_id'', JStr ''507f1f77bcf86cd799439011''),
                                       (''date'', JStr ''2023-01-01'')]])] :: int jsval)
   \<and> map_of [(''createdAt'', JObj []),
            (''owner'', JStr ''507f1f77bcf86cd799439011''),
            (''tags'', JArr [JOid [80, 127, 31, 119, 188, 248, 108, 215, 153, 67, 144, 17]]),
            (''payments'', JArr [JObj [(''_id'', JOid [80, 127, 31, 119, 188, 248, 108, 215, 153, 67, 144, 17]),
                                       (''date'', JDate (Some 1672531200000))]])] ''tags''
       = Some (JArr [JOid [80, 127, 31, 119, 188, 248, 108, 215, 153, 67, 144, 17]] :: int jsval)
   \<and> map_of [(''createdAt'', JObj []),
            (''owner'', JStr ''507f1f77bcf86cd799439011''),
            (''tags'', JArr [JOid [80, 127, 31, 119, 188, 248, 108, 215, 153, 67, 144, 17]]),
            (''payments'', JArr [JObj [(''_id'', JOid [80, 127, 31, 119, 188, 248, 108, 215, 153, 67, 144, 17]),
                                       (''date'', JDate (Some 1672531200000))]])] ''payments''
       = Some (JArr [JObj [(''_id'', JOid [80, 127, 31, 119, 188, 248, 108, 215, 153, 67, 144, 17]),
                                       (''date'', JDate (Some 1672531200000))]] :: int jsval)
   \<and> map_of [(''createdAt'', JObj []),
            (''owner'', JStr ''507f1f77bcf86cd799439011''),
            (''tags'', JArr [JOid [80, 127, 31, 119, 188, 248, 108, 215, 153, 67, 144, 17]]),
            (''payments'', JArr [JObj [(''_id'', JOid [80, 127, 31, 119, 188, 248, 108, 215, 153, 67, 144, 17]),
                                       (''date'', JDate (Some 1672531200000))]])] ''createdAt''
       = Some (JObj [] :: int jsval)"
proof -
  have h1: "convertTypes_result (strict_engine :: int engine)
     (JObj [(''createdAt'', JStr ''2023-01-01T00:00:00Z''),
            (''owner'', JStr ''507f1f77bcf86cd799439011''),
            (''tags'', JArr [JStr ''507f1f77bcf86cd799439011'']),
            (''payments'', JArr [JObj [(''_id'', JStr ''507f1f77bcf86cd799439011''),
                                       (''date'', JStr ''2023-01-01'')]])])
     = Inr (JObj [(''createdAt'', JDate (Some 1672531200000)),
            (''owner'', JStr ''507f1f77bcf86cd799439011''),
            (''tags'', JArr [JOid [80, 127, 31, 119, 188, 248, 108, 215, 153, 67, 144, 17]]),
            (''payments'', JArr [JObj [(''_id'', JOid [80, 127, 31, 119, 188, 248, 108, 215, 153, 67, 144, 17]),
                                       (''date'', JDate (Some 1672531200000))]])])"
    by code_simp
  have h2: "convertTypes_result (strict_engine :: int engine)
     (JObj [(''createdAt'', JDate (Some 1672531200000)),
            (''owner'', JStr ''507f1f77bcf86cd799439011''),
            (''tags'', JArr [JOid [80, 127, 31, 119, 188, 248, 108, 215, 153, 67, 144, 17]]),
            (''payments'', JArr [JObj [(''_id'', JOid [80, 127, 31, 119, 188, 248, 108, 215, 153, 67, 144, 17]),
                                       (''date'', JDate (Some 1672531200000))]])])
     = Inr (JObj [(''createdAt'', JObj []),
            (''owner'', JStr ''507f1f77bcf86cd799439011''),
            (''tags'', JArr [JOid [80, 127, 31, 119, 188, 248, 108, 215, 153, 67, 144, 17]]),
            (''payments'', JArr [JObj [(''_id'', JOid [80, 127, 31, 119, 188, 248, 108, 215, 153, 67, 144, 17]),
                                       (''date'', JDate (Some 1672531200000))]])])"
    by code_simp
  have pf: "proto_free (JObj [(''createdAt'', JStr ''2023-01-01T00:00:00Z''),
            (''owner'', JStr ''507f1f77bcf86cd799439011''),
            (''tags'', JArr [JStr ''507f1f77bcf86cd799439011'']),
            (''payments'', JArr [JObj [(''_id'', JStr ''507f1f77bcf86cd799439011''),
                                       (''date'', JStr ''2023-01-01'')]])] :: int jsval)"
    by simp
  note t = second_pass_keeps_arrays [OF h1 h2 pf]
  have c1: "map_of [(''createdAt'', JObj []),
            (''owner'', JStr ''507f1f77bcf86cd799439011''),
            (''tags'', JArr [JOid [80, 127, 31, 119, 188, 248, 108, 215, 153, 67, 144, 17]]),
            (''payments'', JArr [JObj [(''_id'', JOid [80, 127, 31, 119, 188, 248, 108, 215, 153, 67, 144, 17]),
                                       (''date'', JDate (Some 1672531200000))]])] ''tags''
       = Some (JArr [JOid [80, 127, 31, 119, 188, 248, 108, 215, 153, 67, 144, 17]] :: int jsval)"
    by (rule t [THEN conjunct1, rule_format]) simp
  have c2: "map_of [(''createdAt'', JObj []),
            (''owner'', JStr ''507f1f77bcf86cd799439011''),
            (''tags'', JArr [JOid [80, 127, 31, 119, 188, 248, 108, 215, 153, 67, 144, 17]]),
            (''payments'', JArr [JObj [(''_id'', JOid [80, 127, 31, 119, 188, 248, 108, 215, 153, 67, 144, 17]),
                                       (''date'', JDate (Some 1672531200000))]])] ''payments''
       = Some (JArr [JObj [(''_id'', JOid [80, 127, 31, 119, 188, 248, 108, 215, 153, 67, 144, 17]),
                                       (''date'', JDate (Some 1672531200000))]] :: int jsval)"
    by (rule t [THEN conjunct1, rule_format]) simp
  have c3: "map_of [(''createdAt'', JObj []),
            (''owner'', JStr ''507f1f77bcf86cd799439011''),
            (''tags'', JArr [JOid [80, 127, 31, 119, 188, 248, 108, 215, 153, 67, 144, 17]]),
            (''payments'', JArr [JObj [(''_id'', JOid [80, 127, 31, 119, 188, 248, 108, 215, 153, 67, 144, 17]),
                                       (''date'', JDate (Some 1672531200000))]])] ''createdAt''
       = Some (JObj [] :: int jsval)"
    by (rule t [THEN conjunct2, THEN conjunct1, rule_format,
                of "''createdAt''" "Some 1672531200000"]) simp
  show ?thesis by (intro conjI h1 h2 pf c1 c2 c3)
qed


end
